theory Spec2Isabelle
  imports Main
begin

section \<open>Data model\<close>

text \<open>
  The two controllers (\<^verbatim>\<open>authController.js\<close> and the instructor-application controller)
  work on two MongoDB collections through Mongoose models. A document is a record, a
  collection is the list of its documents in insertion order, and every handler takes the
  state of both collections and returns the new one. An ObjectId is a natural number taken
  from a counter that only grows, so an id is never handed out twice; a date is a number of
  milliseconds.
\<close>

type_synonym objectId = nat
type_synonym date = int

record profile =
  bio :: string
  expertise :: string
  experience :: string
  education :: string
  linkedinUrl :: "string option"
  githubUrl :: "string option"
  portfolioUrl :: "string option"

text \<open>
  The fields of a user document are those the controllers read and write: \<^verbatim>\<open>_id\<close>,
  \<^verbatim>\<open>name\<close>, \<^verbatim>\<open>email\<close>, \<^verbatim>\<open>password\<close>, \<^verbatim>\<open>isAdmin\<close>, \<^verbatim>\<open>isInstructor\<close>,
  \<^verbatim>\<open>role\<close>, \<^verbatim>\<open>isTemporaryPassword\<close> and \<^verbatim>\<open>profile\<close>.
\<close>

record user =
  user_id :: objectId
  user_name :: string
  user_email :: string
  user_password :: string
  isAdmin :: bool
  isInstructor :: bool
  role :: string
  isTemporaryPassword :: bool
  user_profile :: "profile option"

text \<open>The \<^verbatim>\<open>status\<close> path of the application schema: enum pending, approved, rejected.\<close>

datatype status = Pending | Approved | Rejected

record application =
  app_id :: objectId
  app_name :: string
  app_email :: string
  app_password :: string
  app_profile :: profile
  status :: status
  approvedBy :: "objectId option"
  approvedAt :: "date option"
  rejectedBy :: "objectId option"
  rejectedAt :: "date option"
  rejectionReason :: "string option"
  createdAt :: date
  updatedAt :: date

text \<open>
  A mail handed to \<^verbatim>\<open>transporter.sendMail\<close>: sender, recipient, subject, and the values
  interpolated into the HTML template, in the order of the template (the fixed text of the
  template is left out).
\<close>

record mail =
  mail_from :: "string option"
  mail_to :: "string option"
  subject :: string
  html_values :: "string list"

record state =
  users :: "user list"
  applications :: "application list"
  next_id :: objectId
  outbox :: "mail list"
  console :: "string list"

text \<open>
  What a handler throws. \<open>HttpError c m\<close> is \<^verbatim>\<open>res.status(c); throw new Error(m)\<close>.
  The others are thrown by the store with no status set on the response: a violated
  unique index, a failed schema validation (its \<^verbatim>\<open>errors\<close> object is keyed by the
  failing paths, so it carries the set of them), a save of a document that is no longer
  stored, and a query the store refuses.
\<close>

datatype error =
    HttpError nat string
  | DuplicateKey string
  | ValidationError "string set"
  | DocumentNotFound
  | QueryError string

section \<open>Collaborators\<close>

record login_body =
  login_email :: string
  login_password :: string
  login_isTemporaryPassword :: "bool option"

record forgot_body =
  forgot_email :: string

record submit_body =
  submit_name :: string
  submit_email :: string
  submit_password :: string
  submit_profile :: profile

text \<open>
  The libraries and the configuration the handlers call into are parameters of the model:
  the Joi schemas (each gives the message of the first validation error, if any), bcrypt,
  the token signer behind \<^verbatim>\<open>user.generateToken()\<close>, the regular-expression tests of the
  application schema, and the environment variables.
\<close>

record deps =
  joi_login :: "login_body \<Rightarrow> string option"
  joi_forgot :: "forgot_body \<Rightarrow> string option"
  joi_submit :: "submit_body \<Rightarrow> string option"
  bcrypt_hash :: "string \<Rightarrow> string \<Rightarrow> string"
  bcrypt_compare :: "string \<Rightarrow> string \<Rightarrow> bool"
  generateToken :: "user \<Rightarrow> string"
  email_match :: "string \<Rightarrow> bool"
  linkedin_match :: "string \<Rightarrow> bool"
  github_match :: "string \<Rightarrow> bool"
  portfolio_match :: "string \<Rightarrow> bool"
  EMAIL_USER :: "string option"
  ADMIN_EMAIL :: "string option"
  FRONTEND_URL :: "string option"

text \<open>
  What one request draws from outside: the clock, the salt of \<^verbatim>\<open>bcrypt.genSalt\<close>, the
  eight characters of \<^verbatim>\<open>Math.random().toString(36).slice(-8)\<close>, and whether
  \<^verbatim>\<open>transporter.sendMail\<close> resolves.
\<close>

record io =
  now :: date
  salt :: string
  random_password :: string
  mail_ok :: bool

section \<open>Strings\<close>

text \<open>
  A string is the list of its code units, and a \<open>char\<close> holds the code units below 256.
  In that range \<^verbatim>\<open>String.prototype.toLowerCase\<close> moves the capital letters, 65 to 90
  and 192 to 222 without the multiplication sign 215, up by 32 and leaves every other
  code unit alone; \<^verbatim>\<open>String.prototype.trim\<close> strips the white space and the line
  terminators from both ends, which in that range are 9 to 13, the space 32 and the
  no-break space 160.
\<close>

definition toLowerCase_char :: "char \<Rightarrow> char" where
  "toLowerCase_char c =
     (let n = (of_char c :: nat)
      in if (65 \<le> n \<and> n \<le> 90) \<or> (192 \<le> n \<and> n \<le> 222 \<and> n \<noteq> 215)
         then char_of (n + 32) else c)"

definition toLowerCase :: "string \<Rightarrow> string" where
  "toLowerCase s = map toLowerCase_char s"

definition is_space :: "char \<Rightarrow> bool" where
  "is_space c = ((of_char c :: nat) \<in> {9, 10, 11, 12, 13, 32, 160})"

definition trim :: "string \<Rightarrow> string" where
  "trim s = rev (dropWhile is_space (rev (dropWhile is_space s)))"

text \<open>The setters \<^verbatim>\<open>trim: true, lowercase: true\<close> of the \<^verbatim>\<open>email\<close> path.\<close>

definition normalize_email :: "string \<Rightarrow> string" where
  "normalize_email e = toLowerCase (trim e)"

text \<open>JavaScript's \<^verbatim>\<open>a || b\<close> on values that are undefined or strings.\<close>

definition or_else :: "string option \<Rightarrow> string option \<Rightarrow> string option" where
  "or_else a b = (case a of None \<Rightarrow> b | Some s \<Rightarrow> if s = [] then b else Some s)"

section \<open>The user store\<close>

text \<open>
  Modelled from the spec: the user model (\<^verbatim>\<open>models/userModel.js\<close>) is not among the
  sources. The spec's Identity Store gives \<open>findByEmail\<close> as an exact match after
  trim/lowercase normalization.
\<close>

definition User_findOne :: "string \<Rightarrow> user list \<Rightarrow> user option" where
  "User_findOne e us = find (\<lambda>u. user_email u = normalize_email e) us"

text \<open>
  Modelled from the spec: \<^verbatim>\<open>user.matchPassword\<close> of the missing user model is the
  Credential Vault's \<open>verify\<close> of the entered secret against the stored hash.
\<close>

definition matchPassword :: "deps \<Rightarrow> user \<Rightarrow> string \<Rightarrow> bool" where
  "matchPassword d u entered = bcrypt_compare d entered (user_password u)"

text \<open>
  Modelled from the spec: \<^verbatim>\<open>user.save()\<close> of the missing user model after the handler
  has assigned \<^verbatim>\<open>password\<close> and \<^verbatim>\<open>isTemporaryPassword\<close>. The spec's ForgotSecret and
  ChangeSecret hash the new secret and store it with the flag. The update goes to the
  stored document with the id of the loaded one; with none left the save fails.
\<close>

definition User_save_password ::
  "deps \<Rightarrow> string \<Rightarrow> objectId \<Rightarrow> string \<Rightarrow> bool \<Rightarrow> user list \<Rightarrow> error + user list" where
  "User_save_password d slt uid plain temp us =
     (if \<exists>u \<in> set us. user_id u = uid
      then Inr (map (\<lambda>u. if user_id u = uid
                          then u\<lparr>user_password := bcrypt_hash d slt plain,
                                 isTemporaryPassword := temp\<rparr>
                          else u) us)
      else Inl DocumentNotFound)"

section \<open>Authentication handlers\<close>

record login_response =
  res_id :: objectId
  res_name :: string
  res_email :: string
  res_isAdmin :: bool
  res_isInstructor :: bool
  res_role :: string
  res_token :: string
  requirePasswordChange :: bool

text \<open>
  \<^verbatim>\<open>loginUser\<close>. The handler reads \<^verbatim>\<open>email\<close>, \<^verbatim>\<open>password\<close> and
  \<^verbatim>\<open>isTemporaryPassword\<close> from the request body, and answers
  \<^verbatim>\<open>requirePasswordChange: isTemporaryPassword || false\<close> with the value of the body. It
  writes nothing, so it returns no state.
\<close>

definition loginUser :: "deps \<Rightarrow> login_body \<Rightarrow> state \<Rightarrow> error + login_response" where
  "loginUser d body st =
     (case joi_login d body of
        Some m \<Rightarrow> Inl (HttpError 400 m)
      | None \<Rightarrow>
          (case User_findOne (login_email body) (users st) of
             None \<Rightarrow> Inl (HttpError 401 ''Invalid email or password'')
           | Some u \<Rightarrow>
               if matchPassword d u (login_password body)
               then Inr \<lparr>res_id = user_id u, res_name = user_name u,
                         res_email = user_email u, res_isAdmin = isAdmin u,
                         res_isInstructor = isInstructor u, res_role = role u,
                         res_token = generateToken d u,
                         requirePasswordChange =
                           (case login_isTemporaryPassword body of
                              None \<Rightarrow> False | Some b \<Rightarrow> b)\<rparr>
               else Inl (HttpError 401 ''Invalid email or password'')))"

text \<open>
  \<^verbatim>\<open>forgotPassword\<close>. The temporary password is stored before the mail is sent; when
  \<^verbatim>\<open>sendMail\<close> rejects, the handler logs and throws with status 500, and the stored
  password stays replaced.
\<close>

definition forgot_mail :: "deps \<Rightarrow> string \<Rightarrow> user \<Rightarrow> string \<Rightarrow> mail" where
  "forgot_mail d e u tempPassword =
     \<lparr>mail_from = EMAIL_USER d, mail_to = Some e,
      subject = ''Password Reset - LMS Platform'',
      html_values = [user_name u, tempPassword]\<rparr>"

definition forgotPassword :: "deps \<Rightarrow> io \<Rightarrow> forgot_body \<Rightarrow> state \<Rightarrow> (error + string) \<times> state" where
  "forgotPassword d i body st =
     (case joi_forgot d body of
        Some m \<Rightarrow> (Inl (HttpError 400 m), st)
      | None \<Rightarrow>
          (case User_findOne (forgot_email body) (users st) of
             None \<Rightarrow> (Inl (HttpError 404 ''User not found with this email''), st)
           | Some u \<Rightarrow>
               (let tempPassword = random_password i in
                case User_save_password d (salt i) (user_id u) tempPassword True (users st) of
                  Inl e \<Rightarrow> (Inl e, st)
                | Inr us \<Rightarrow>
                    (let st1 = st\<lparr>users := us\<rparr> in
                     if mail_ok i
                     then (Inr ''Temporary password sent to your email'',
                           st1\<lparr>outbox := outbox st1 @
                                  [forgot_mail d (forgot_email body) u tempPassword]\<rparr>)
                     else (Inl (HttpError 500 ''Failed to send email. Please try again later.''),
                           st1\<lparr>console := console st1 @ [''Email sending failed:'']\<rparr>)))))"

section \<open>The application store\<close>

text \<open>
  \<^verbatim>\<open>models/instructorApplicationModel.js\<close>. The setters trim \<^verbatim>\<open>name\<close>, the
  \<^verbatim>\<open>email\<close> (also lowercased), the profile's \<^verbatim>\<open>bio\<close>, \<^verbatim>\<open>expertise\<close>,
  \<^verbatim>\<open>education\<close> and its three URLs, and \<^verbatim>\<open>rejectionReason\<close>.
\<close>

definition trim_profile :: "profile \<Rightarrow> profile" where
  "trim_profile p =
     p\<lparr>bio := trim (bio p), expertise := trim (expertise p), education := trim (education p),
       linkedinUrl := map_option trim (linkedinUrl p),
       githubUrl := map_option trim (githubUrl p),
       portfolioUrl := map_option trim (portfolioUrl p)\<rparr>"

definition experience_enum :: "string list" where
  "experience_enum = [''1-2 years'', ''3-5 years'', ''6-10 years'', ''10+ years'']"

text \<open>A \<^verbatim>\<open>match\<close> validator passes a value that is absent or empty.\<close>

definition match_ok :: "(string \<Rightarrow> bool) \<Rightarrow> string option \<Rightarrow> bool" where
  "match_ok re v = (case v of None \<Rightarrow> True | Some s \<Rightarrow> s = [] \<or> re s)"

text \<open>
  The validators of the schema, on the values after the setters: the set of the paths
  that fail. A required string fails when it is empty.
\<close>

definition failing_paths :: "deps \<Rightarrow> string \<Rightarrow> string \<Rightarrow> string \<Rightarrow> profile \<Rightarrow> string set" where
  "failing_paths d nm em pw p =
     (if nm = [] then {''name''} else {}) \<union>
     (if em = [] \<or> \<not> email_match d em then {''email''} else {}) \<union>
     (if pw = [] \<or> length pw < 6 then {''password''} else {}) \<union>
     (if bio p = [] then {''profile.bio''} else {}) \<union>
     (if expertise p = [] then {''profile.expertise''} else {}) \<union>
     (if experience p = [] \<or> experience p \<notin> set experience_enum
      then {''profile.experience''} else {}) \<union>
     (if education p = [] then {''profile.education''} else {}) \<union>
     (if match_ok (linkedin_match d) (linkedinUrl p) then {} else {''profile.linkedinUrl''}) \<union>
     (if match_ok (github_match d) (githubUrl p) then {} else {''profile.githubUrl''}) \<union>
     (if match_ok (portfolio_match d) (portfolioUrl p) then {} else {''profile.portfolioUrl''})"

definition InstructorApplication_findOne :: "string \<Rightarrow> application list \<Rightarrow> application option" where
  "InstructorApplication_findOne e as = find (\<lambda>a. app_email a = normalize_email e) as"

definition InstructorApplication_findById ::
  "objectId \<Rightarrow> application list \<Rightarrow> application option" where
  "InstructorApplication_findById i as = find (\<lambda>a. app_id a = i) as"

text \<open>
  \<^verbatim>\<open>InstructorApplication.create({name, email, password, profile, status: 'pending'})\<close>:
  setters, validation, the pre-save hook (the password is new, so it is hashed with a fresh
  salt), then the insert, which the unique index on \<^verbatim>\<open>email\<close> can refuse.
\<close>

definition InstructorApplication_create ::
  "deps \<Rightarrow> io \<Rightarrow> string \<Rightarrow> string \<Rightarrow> string \<Rightarrow> profile \<Rightarrow> state \<Rightarrow> error + application \<times> state" where
  "InstructorApplication_create d i nm em pw p st =
     (let nm' = trim nm; em' = normalize_email em; p' = trim_profile p;
          bad = failing_paths d nm' em' pw p'
      in if bad \<noteq> {} then Inl (ValidationError bad)
         else if \<exists>a \<in> set (applications st). app_email a = em' then Inl (DuplicateKey ''email'')
         else
           (let a = \<lparr>app_id = next_id st, app_name = nm', app_email = em',
                     app_password = bcrypt_hash d (salt i) pw, app_profile = p',
                     status = Pending, approvedBy = None, approvedAt = None,
                     rejectedBy = None, rejectedAt = None, rejectionReason = None,
                     createdAt = now i, updatedAt = now i\<rparr>
            in Inr (a, st\<lparr>applications := applications st @ [a], next_id := Suc (next_id st)\<rparr>)))"

text \<open>
  \<^verbatim>\<open>application.save()\<close> on a loaded document: the update carries the paths the handler
  assigned (here as the function \<open>f\<close>) and goes to the stored document with that id, with no
  condition on what is stored there. On such a save the password is unmodified, the hook
  calls \<^verbatim>\<open>next()\<close> at once, and the stored password is not part of the update. With no
  document of that id left the save fails.
\<close>

definition InstructorApplication_save ::
  "objectId \<Rightarrow> (application \<Rightarrow> application) \<Rightarrow> state \<Rightarrow> error + state" where
  "InstructorApplication_save i f st =
     (if \<exists>a \<in> set (applications st). app_id a = i
      then Inr (st\<lparr>applications := map (\<lambda>a. if app_id a = i then f a else a) (applications st)\<rparr>)
      else Inl DocumentNotFound)"

text \<open>
  Modelled from the spec: \<^verbatim>\<open>User.create\<close> of the missing user model, as the Identity
  Store's \<open>create\<close>: it fails with a duplicate key when the unique email index is violated
  and otherwise stores the record under a new id. Approval hands it the application's
  secret hash, which the spec has stored as it is.
\<close>

definition User_create ::
  "string \<Rightarrow> string \<Rightarrow> string \<Rightarrow> bool \<Rightarrow> string \<Rightarrow> profile option \<Rightarrow> state \<Rightarrow> error + user \<times> state" where
  "User_create nm em hashed instr rl p st =
     (let em' = normalize_email em
      in if \<exists>u \<in> set (users st). user_email u = em' then Inl (DuplicateKey ''email'')
         else
           (let u = \<lparr>user_id = next_id st, user_name = nm, user_email = em',
                     user_password = hashed, isAdmin = False, isInstructor = instr,
                     role = rl, isTemporaryPassword = False, user_profile = p\<rparr>
            in Inr (u, st\<lparr>users := users st @ [u], next_id := Suc (next_id st)\<rparr>)))"

section \<open>Application lifecycle handlers\<close>

text \<open>
  The \<^verbatim>\<open>try { await transporter.sendMail(...) } catch (error) { console.error(...) }\<close>
  block of submit, approve and reject: a rejected send leaves a line on the console and
  nothing else.
\<close>

definition send_or_log :: "io \<Rightarrow> mail \<Rightarrow> string \<Rightarrow> state \<Rightarrow> state" where
  "send_or_log i m line st =
     (if mail_ok i then st\<lparr>outbox := outbox st @ [m]\<rparr>
      else st\<lparr>console := console st @ [line]\<rparr>)"

record submit_response =
  submit_status :: nat
  submit_success :: bool
  submit_message :: string
  applicationId :: objectId

definition submit_mail :: "deps \<Rightarrow> submit_body \<Rightarrow> mail" where
  "submit_mail d body =
     \<lparr>mail_from = EMAIL_USER d, mail_to = or_else (ADMIN_EMAIL d) (EMAIL_USER d),
      subject = ''New Instructor Application - LMS Platform'',
      html_values = [submit_name body, submit_email body,
                     expertise (submit_profile body), experience (submit_profile body)]\<rparr>"

definition submitApplication ::
  "deps \<Rightarrow> io \<Rightarrow> submit_body \<Rightarrow> state \<Rightarrow> (error + submit_response) \<times> state" where
  "submitApplication d i body st =
     (case joi_submit d body of
        Some m \<Rightarrow> (Inl (HttpError 400 m), st)
      | None \<Rightarrow>
          (case User_findOne (submit_email body) (users st) of
             Some existingUser \<Rightarrow>
               (Inl (HttpError 400 ''User with this email already exists''), st)
           | None \<Rightarrow>
               (case InstructorApplication_findOne (submit_email body) (applications st) of
                  Some existingApplication \<Rightarrow>
                    (Inl (HttpError 400 ''Application with this email already exists''), st)
                | None \<Rightarrow>
                    (case InstructorApplication_create d i (submit_name body) (submit_email body)
                            (submit_password body) (submit_profile body) st of
                       Inl e \<Rightarrow> (Inl e, st)
                     | Inr (application, st1) \<Rightarrow>
                         (Inr \<lparr>submit_status = 201, submit_success = True,
                               submit_message = ''Instructor application submitted successfully'',
                               applicationId = app_id application\<rparr>,
                          send_or_log i (submit_mail d body)
                            ''Failed to send admin notification email:'' st1)))))"

text \<open>
  \<^verbatim>\<open>approveApplication\<close> and \<^verbatim>\<open>rejectApplication\<close> run in steps, one for each
  \<^verbatim>\<open>await\<close>: the load with its two guards, for approve the creation of the user, the save
  of the loaded document, and the mail. Both handlers start with the same load.
\<close>

definition load_pending :: "objectId \<Rightarrow> state \<Rightarrow> error + application" where
  "load_pending aid st =
     (case InstructorApplication_findById aid (applications st) of
        None \<Rightarrow> Inl (HttpError 404 ''Application not found'')
      | Some application \<Rightarrow>
          if status application \<noteq> Pending
          then Inl (HttpError 400 ''Application has already been processed'')
          else Inr application)"

definition approve_create_user :: "application \<Rightarrow> state \<Rightarrow> error + user \<times> state" where
  "approve_create_user application st =
     User_create (app_name application) (app_email application) (app_password application)
       True ''instructor'' (Some (app_profile application)) st"

definition approve_save :: "io \<Rightarrow> objectId \<Rightarrow> application \<Rightarrow> state \<Rightarrow> error + state" where
  "approve_save i admin application st =
     InstructorApplication_save (app_id application)
       (\<lambda>a. a\<lparr>status := Approved, approvedBy := Some admin, approvedAt := Some (now i),
              updatedAt := now i\<rparr>) st"

definition approve_mail :: "deps \<Rightarrow> application \<Rightarrow> mail" where
  "approve_mail d application =
     \<lparr>mail_from = EMAIL_USER d, mail_to = Some (app_email application),
      subject = ''Instructor Application Approved - LMS Platform'',
      html_values = [app_name application, app_email application,
                     (case or_else (FRONTEND_URL d) None of
                        None \<Rightarrow> ''http://localhost:3000'' | Some url \<Rightarrow> url)]\<rparr>"

record approve_response =
  approve_message :: string
  approved_id :: objectId
  approved_name :: string
  approved_email :: string
  approved_role :: string

definition approve_finish ::
  "deps \<Rightarrow> io \<Rightarrow> application \<Rightarrow> user \<Rightarrow> state \<Rightarrow> (error + approve_response) \<times> state" where
  "approve_finish d i application u st =
     (Inr \<lparr>approve_message = ''Application approved successfully'',
           approved_id = user_id u, approved_name = user_name u,
           approved_email = user_email u, approved_role = role u\<rparr>,
      send_or_log i (approve_mail d application) ''Failed to send approval email:'' st)"

definition approveApplication ::
  "deps \<Rightarrow> io \<Rightarrow> objectId \<Rightarrow> objectId \<Rightarrow> state \<Rightarrow> (error + approve_response) \<times> state" where
  "approveApplication d i aid admin st =
     (case load_pending aid st of
        Inl e \<Rightarrow> (Inl e, st)
      | Inr application \<Rightarrow>
          (case approve_create_user application st of
             Inl e \<Rightarrow> (Inl e, st)
           | Inr (u, st1) \<Rightarrow>
               (case approve_save i admin application st1 of
                  Inl e \<Rightarrow> (Inl e, st1)
                | Inr st2 \<Rightarrow> approve_finish d i application u st2)))"

definition reject_save ::
  "io \<Rightarrow> objectId \<Rightarrow> string option \<Rightarrow> application \<Rightarrow> state \<Rightarrow> error + state" where
  "reject_save i admin reason application st =
     InstructorApplication_save (app_id application)
       (\<lambda>a. a\<lparr>status := Rejected, rejectedBy := Some admin, rejectedAt := Some (now i),
              rejectionReason := map_option trim reason, updatedAt := now i\<rparr>) st"

definition reject_mail :: "deps \<Rightarrow> string option \<Rightarrow> application \<Rightarrow> mail" where
  "reject_mail d reason application =
     \<lparr>mail_from = EMAIL_USER d, mail_to = Some (app_email application),
      subject = ''Instructor Application Update - LMS Platform'',
      html_values = app_name application #
        (case reason of None \<Rightarrow> [] | Some r \<Rightarrow> if r = [] then [] else [r])\<rparr>"

definition reject_finish ::
  "deps \<Rightarrow> io \<Rightarrow> string option \<Rightarrow> application \<Rightarrow> state \<Rightarrow> (error + string) \<times> state" where
  "reject_finish d i reason application st =
     (Inr ''Application rejected successfully'',
      send_or_log i (reject_mail d reason application) ''Failed to send rejection email:'' st)"

definition rejectApplication ::
  "deps \<Rightarrow> io \<Rightarrow> objectId \<Rightarrow> objectId \<Rightarrow> string option \<Rightarrow> state \<Rightarrow> (error + string) \<times> state" where
  "rejectApplication d i aid admin reason st =
     (case load_pending aid st of
        Inl e \<Rightarrow> (Inl e, st)
      | Inr application \<Rightarrow>
          (case reject_save i admin reason application st of
             Inl e \<Rightarrow> (Inl e, st)
           | Inr st1 \<Rightarrow> reject_finish d i reason application st1))"

text \<open>
  What is left of the two handlers once the application is loaded and has passed the
  guards: the statements after the second guard, run on the loaded document and on the
  store as it is by then.
\<close>

definition approve_after_load ::
  "deps \<Rightarrow> io \<Rightarrow> objectId \<Rightarrow> application \<Rightarrow> state \<Rightarrow> (error + approve_response) \<times> state" where
  "approve_after_load d i admin application st =
     (case approve_create_user application st of
        Inl e \<Rightarrow> (Inl e, st)
      | Inr (u, st1) \<Rightarrow>
          (case approve_save i admin application st1 of
             Inl e \<Rightarrow> (Inl e, st1)
           | Inr st2 \<Rightarrow> approve_finish d i application u st2))"

definition reject_after_load ::
  "deps \<Rightarrow> io \<Rightarrow> objectId \<Rightarrow> string option \<Rightarrow> application \<Rightarrow> state \<Rightarrow> (error + string) \<times> state" where
  "reject_after_load d i admin reason application st =
     (case reject_save i admin reason application st of
        Inl e \<Rightarrow> (Inl e, st)
      | Inr st1 \<Rightarrow> reject_finish d i reason application st1)"

section \<open>Listing and fetching applications\<close>

text \<open>
  What \<^verbatim>\<open>res.json\<close> sends for a document is an object of named fields. A field that was
  never set is absent. \<^verbatim>\<open>.select('-password')\<close> drops the named field from the object.
\<close>

datatype json = JNum int | JStr string | JObj "(string \<times> json) list"

definition opt_field :: "string \<Rightarrow> ('a \<Rightarrow> json) \<Rightarrow> 'a option \<Rightarrow> (string \<times> json) list" where
  "opt_field k f v = (case v of None \<Rightarrow> [] | Some x \<Rightarrow> [(k, f x)])"

definition status_name :: "status \<Rightarrow> string" where
  "status_name s = (case s of Pending \<Rightarrow> ''pending'' | Approved \<Rightarrow> ''approved''
                    | Rejected \<Rightarrow> ''rejected'')"

definition profile_fields :: "profile \<Rightarrow> (string \<times> json) list" where
  "profile_fields p =
     [(''bio'', JStr (bio p)), (''expertise'', JStr (expertise p)),
      (''experience'', JStr (experience p)), (''education'', JStr (education p))] @
     opt_field ''linkedinUrl'' JStr (linkedinUrl p) @
     opt_field ''githubUrl'' JStr (githubUrl p) @
     opt_field ''portfolioUrl'' JStr (portfolioUrl p)"

definition application_fields :: "application \<Rightarrow> (string \<times> json) list" where
  "application_fields a =
     [(''_id'', JNum (int (app_id a))), (''name'', JStr (app_name a)),
      (''email'', JStr (app_email a)), (''password'', JStr (app_password a)),
      (''profile'', JObj (profile_fields (app_profile a))),
      (''status'', JStr (status_name (status a)))] @
     opt_field ''approvedBy'' (\<lambda>i. JNum (int i)) (approvedBy a) @
     opt_field ''approvedAt'' JNum (approvedAt a) @
     opt_field ''rejectedBy'' (\<lambda>i. JNum (int i)) (rejectedBy a) @
     opt_field ''rejectedAt'' JNum (rejectedAt a) @
     opt_field ''rejectionReason'' JStr (rejectionReason a) @
     [(''createdAt'', JNum (createdAt a)), (''updatedAt'', JNum (updatedAt a))]"

definition select_minus :: "string \<Rightarrow> (string \<times> json) list \<Rightarrow> (string \<times> json) list" where
  "select_minus k fs = filter (\<lambda>(k', v). k' \<noteq> k) fs"

text \<open>
  The query string of \<^verbatim>\<open>getApplications\<close>: \<open>q_page\<close> and \<open>q_limit\<close> are what
  \<^verbatim>\<open>parseInt\<close> makes of the two parameters (\<open>None\<close> for \<^verbatim>\<open>NaN\<close>), \<open>q_status\<close> is
  the status parameter if there is one.
\<close>

record list_query =
  q_page :: "int option"
  q_limit :: "int option"
  q_status :: "string option"

record list_response =
  res_applications :: "(string \<times> json) list list"
  res_page :: int
  res_pages :: int
  res_total :: int
  hasNextPage :: bool
  hasPrevPage :: bool

text \<open>\<^verbatim>\<open>parseInt(x) || dflt\<close>: \<^verbatim>\<open>NaN\<close> and 0 give the default.\<close>

definition int_or :: "int option \<Rightarrow> int \<Rightarrow> int" where
  "int_or v dflt = (case v of None \<Rightarrow> dflt | Some n \<Rightarrow> if n = 0 then dflt else n)"

definition matches_filter :: "string option \<Rightarrow> application \<Rightarrow> bool" where
  "matches_filter st a =
     (case st of None \<Rightarrow> True | Some s \<Rightarrow> s = [] \<or> status_name (status a) = s)"

text \<open>\<^verbatim>\<open>Math.ceil(total / limit)\<close> on integers, \<open>limit\<close> not 0.\<close>

definition ceil_div :: "int \<Rightarrow> int \<Rightarrow> int" where
  "ceil_div a b = - ((- a) div b)"

text \<open>
  \<^verbatim>\<open>getApplications\<close>. The store refuses a negative skip; a negative limit counts as its
  absolute value.
\<close>

definition getApplications :: "list_query \<Rightarrow> state \<Rightarrow> error + list_response" where
  "getApplications q st =
     (let page = int_or (q_page q) 1;
          limit = int_or (q_limit q) 10;
          skip = (page - 1) * limit;
          found = filter (matches_filter (q_status q)) (applications st);
          total = int (length found)
      in if skip < 0 then Inl (QueryError ''skip'')
         else Inr \<lparr>res_applications =
                     map (\<lambda>a. select_minus ''password'' (application_fields a))
                       (take (nat \<bar>limit\<bar>) (drop (nat skip)
                          (sort_key (\<lambda>a. - createdAt a) found))),
                   res_page = page,
                   res_pages = ceil_div total limit,
                   res_total = total,
                   hasNextPage = (page < ceil_div total limit),
                   hasPrevPage = (page > 1)\<rparr>)"

definition getApplicationById :: "objectId \<Rightarrow> state \<Rightarrow> error + (string \<times> json) list" where
  "getApplicationById aid st =
     (case InstructorApplication_findById aid (applications st) of
        None \<Rightarrow> Inl (HttpError 404 ''Application not found'')
      | Some application \<Rightarrow> Inr (select_minus ''password'' (application_fields application)))"

section \<open>Sequences of calls\<close>

text \<open>
  A run of the handlers that write: each call comes with what it draws from outside.
  \<open>identities_created d aid cs st\<close> lists the ids of the users that the successful
  approvals of application \<open>aid\<close> create along the run \<open>cs\<close> from \<open>st\<close>.
\<close>

datatype call =
    Submit submit_body
  | Approve objectId objectId
  | Reject objectId objectId "string option"
  | Forgot forgot_body

fun identities_created :: "deps \<Rightarrow> objectId \<Rightarrow> (io \<times> call) list \<Rightarrow> state \<Rightarrow> objectId list" where
  "identities_created d aid [] st = []"
| "identities_created d aid ((i, Submit body) # cs) st =
     identities_created d aid cs (snd (submitApplication d i body st))"
| "identities_created d aid ((i, Approve a admin) # cs) st =
     (case approveApplication d i a admin st of
        (Inr r, st') \<Rightarrow> (if a = aid then [approved_id r] else []) @ identities_created d aid cs st'
      | (Inl e, st') \<Rightarrow> identities_created d aid cs st')"
| "identities_created d aid ((i, Reject a admin reason) # cs) st =
     identities_created d aid cs (snd (rejectApplication d i a admin reason st))"
| "identities_created d aid ((i, Forgot body) # cs) st =
     identities_created d aid cs (snd (forgotPassword d i body st))"

text \<open>The state after one call, and after a run of calls.\<close>

fun perform :: "deps \<Rightarrow> io \<times> call \<Rightarrow> state \<Rightarrow> state" where
  "perform d (i, Submit body) st = snd (submitApplication d i body st)"
| "perform d (i, Approve a admin) st = snd (approveApplication d i a admin st)"
| "perform d (i, Reject a admin reason) st = snd (rejectApplication d i a admin reason st)"
| "perform d (i, Forgot body) st = snd (forgotPassword d i body st)"

fun run :: "deps \<Rightarrow> (io \<times> call) list \<Rightarrow> state \<Rightarrow> state" where
  "run d [] st = st"
| "run d (c # cs) st = run d cs (perform d c st)"

text \<open>
  An application that has left \<open>pending\<close>: the document that \<^verbatim>\<open>findById\<close> loads for
  the id is there and its status is \<open>approved\<close> or \<open>rejected\<close>.
\<close>

definition processed :: "objectId \<Rightarrow> state \<Rightarrow> bool" where
  "processed aid st =
     (case InstructorApplication_findById aid (applications st) of
        None \<Rightarrow> False | Some a \<Rightarrow> status a \<noteq> Pending)"

section \<open>A concrete instance\<close>

text \<open>
  Stand-ins for the libraries, good enough to run the handlers: validators that look for
  an \<open>@\<close> and for empty fields, a hash that keeps the password after the salt, a token
  that names the user.
\<close>

definition demo_hash :: "string \<Rightarrow> string \<Rightarrow> string" where
  "demo_hash slt pw = filter (\<lambda>c. c \<noteq> CHR ''$'') slt @ ''$'' @ pw"

definition demo_compare :: "string \<Rightarrow> string \<Rightarrow> bool" where
  "demo_compare pw h = (dropWhile (\<lambda>c. c \<noteq> CHR ''$'') h = ''$'' @ pw)"

definition demo_email_ok :: "string \<Rightarrow> bool" where
  "demo_email_ok e = (CHR ''@'' \<in> set e \<and> CHR '' '' \<notin> set e)"

definition demo_url_ok :: "string \<Rightarrow> bool" where
  "demo_url_ok s = (take 7 s = ''http://'' \<or> take 8 s = ''https://'')"

definition demo_joi_submit :: "submit_body \<Rightarrow> string option" where
  "demo_joi_submit b =
     (if submit_name b = [] then Some ''name is not allowed to be empty''
      else if \<not> demo_email_ok (submit_email b) then Some ''email must be a valid email''
      else if length (submit_password b) < 6
      then Some ''password length must be at least 6 characters long''
      else if bio (submit_profile b) = [] then Some ''profile.bio is not allowed to be empty''
      else if expertise (submit_profile b) = []
      then Some ''profile.expertise is not allowed to be empty''
      else if experience (submit_profile b) = []
      then Some ''profile.experience is not allowed to be empty''
      else if education (submit_profile b) = []
      then Some ''profile.education is not allowed to be empty''
      else if \<not> match_ok demo_url_ok (linkedinUrl (submit_profile b))
      then Some ''profile.linkedinUrl must be a valid uri''
      else if \<not> match_ok demo_url_ok (githubUrl (submit_profile b))
      then Some ''profile.githubUrl must be a valid uri''
      else if \<not> match_ok demo_url_ok (portfolioUrl (submit_profile b))
      then Some ''profile.portfolioUrl must be a valid uri''
      else None)"

definition demo_deps :: deps where
  "demo_deps =
     \<lparr>joi_login = (\<lambda>b. if \<not> demo_email_ok (login_email b)
                         then Some ''email must be a valid email''
                         else if login_password b = []
                         then Some ''password is not allowed to be empty'' else None),
      joi_forgot = (\<lambda>b. if \<not> demo_email_ok (forgot_email b)
                          then Some ''email must be a valid email'' else None),
      joi_submit = demo_joi_submit,
      bcrypt_hash = demo_hash,
      bcrypt_compare = demo_compare,
      generateToken = (\<lambda>u. ''token:'' @ user_email u @ '':'' @ role u),
      email_match = demo_email_ok,
      linkedin_match = demo_url_ok,
      github_match = demo_url_ok,
      portfolio_match = demo_url_ok,
      EMAIL_USER = Some ''lms@x.com'',
      ADMIN_EMAIL = None,
      FRONTEND_URL = None\<rparr>"

definition demo_io :: io where
  "demo_io = \<lparr>now = 1000, salt = ''s1'', random_password = ''k3x9q2ab'', mail_ok = True\<rparr>"

definition demo_profile :: profile where
  "demo_profile =
     \<lparr>bio = ''Teacher'', expertise = ''Logic'', experience = ''3-5 years'',
      education = ''MSc'', linkedinUrl = None, githubUrl = Some [], portfolioUrl = None\<rparr>"

definition ada_body :: submit_body where
  "ada_body = \<lparr>submit_name = ''Ada'', submit_email = ''Ada@X.com'',
                submit_password = ''secret1'', submit_profile = demo_profile\<rparr>"

definition cy :: user where
  "cy = \<lparr>user_id = 0, user_name = ''Cy'', user_email = ''cy@x.com'',
         user_password = demo_hash ''s0'' ''secret1'', isAdmin = False, isInstructor = False,
         role = ''student'', isTemporaryPassword = False, user_profile = None\<rparr>"

definition bob_application :: application where
  "bob_application =
     \<lparr>app_id = 1, app_name = ''Bob'', app_email = ''bob@x.com'',
      app_password = demo_hash ''s0'' ''secret1'', app_profile = demo_profile,
      status = Pending, approvedBy = None, approvedAt = None, rejectedBy = None,
      rejectedAt = None, rejectionReason = None, createdAt = 500, updatedAt = 500\<rparr>"

definition demo_state :: state where
  "demo_state = \<lparr>users = [cy], applications = [bob_application], next_id = 2,
                  outbox = [], console = []\<rparr>"

section \<open>Facts about the stores\<close>

lemma find_map_same:
  assumes "\<And>x. P (f x) = P x"
  shows "find P (map f xs) = map_option f (find P xs)"
  using assms by (induction xs) simp_all

lemma find_Some_in_set: "find P xs = Some x \<Longrightarrow> x \<in> set xs \<and> P x"
  by (induction xs) (auto split: if_splits)

lemma User_findOne_after_save:
  assumes found: "User_findOne e us = Some u"
  shows "\<exists>us'. User_save_password d slt (user_id u) plain temp us = Inr us' \<and>
           us' = map (\<lambda>v. if user_id v = user_id u
                           then v\<lparr>user_password := bcrypt_hash d slt plain,
                                  isTemporaryPassword := temp\<rparr>
                           else v) us \<and>
           User_findOne e us' =
             Some (u\<lparr>user_password := bcrypt_hash d slt plain, isTemporaryPassword := temp\<rparr>)"
proof -
  from found have mem: "u \<in> set us"
    unfolding User_findOne_def by (auto dest: find_Some_in_set)
  let ?f = "\<lambda>v. if user_id v = user_id u
                 then v\<lparr>user_password := bcrypt_hash d slt plain, isTemporaryPassword := temp\<rparr>
                 else v"
  have saved: "User_save_password d slt (user_id u) plain temp us = Inr (map ?f us)"
    using mem unfolding User_save_password_def by auto
  have "find (\<lambda>v. user_email v = normalize_email e) (map ?f us) =
          map_option ?f (find (\<lambda>v. user_email v = normalize_email e) us)"
    by (rule find_map_same) simp
  with found have "User_findOne e (map ?f us) = Some (?f u)"
    unfolding User_findOne_def by simp
  with saved show ?thesis by simp
qed

lemma forgotPassword_found:
  assumes "joi_forgot d body = None"
    and "User_findOne (forgot_email body) (users st) = Some u"
  shows "forgotPassword d i body st =
     (let st1 = st\<lparr>users := map (\<lambda>v. if user_id v = user_id u
                                        then v\<lparr>user_password :=
                                                 bcrypt_hash d (salt i) (random_password i),
                                               isTemporaryPassword := True\<rparr>
                                        else v) (users st)\<rparr>
      in if mail_ok i
         then (Inr ''Temporary password sent to your email'',
               st1\<lparr>outbox := outbox st1 @
                      [forgot_mail d (forgot_email body) u (random_password i)]\<rparr>)
         else (Inl (HttpError 500 ''Failed to send email. Please try again later.''),
               st1\<lparr>console := console st1 @ [''Email sending failed:'']\<rparr>))"
proof -
  from User_findOne_after_save [OF assms(2), of d "salt i" "random_password i" True]
  have "User_save_password d (salt i) (user_id u) (random_password i) True (users st) =
      Inr (map (\<lambda>v. if user_id v = user_id u
                     then v\<lparr>user_password := bcrypt_hash d (salt i) (random_password i),
                            isTemporaryPassword := True\<rparr>
                     else v) (users st))"
    by blast
  with assms show ?thesis
    unfolding forgotPassword_def Let_def by simp
qed

lemma forgotPassword_found_again:
  assumes "joi_forgot d body = None"
    and "User_findOne (forgot_email body) (users st) = Some u"
  shows "User_findOne (forgot_email body) (users (snd (forgotPassword d i body st))) =
     Some (u\<lparr>user_password := bcrypt_hash d (salt i) (random_password i),
             isTemporaryPassword := True\<rparr>)"
proof -
  from User_findOne_after_save [OF assms(2), of d "salt i" "random_password i" True]
  have "User_findOne (forgot_email body)
      (map (\<lambda>v. if user_id v = user_id u
                 then v\<lparr>user_password := bcrypt_hash d (salt i) (random_password i),
                        isTemporaryPassword := True\<rparr>
                 else v) (users st)) =
      Some (u\<lparr>user_password := bcrypt_hash d (salt i) (random_password i),
              isTemporaryPassword := True\<rparr>)"
    by blast
  then show ?thesis
    unfolding forgotPassword_found [OF assms] Let_def by simp
qed

section \<open>Login\<close>

text \<open>
  C1. Login is to report \<open>requirePasswordChange = true\<close> for an identity whose stored
  secret is marked temporary, from the stored mark and not from what the caller sends.
  The handler does the opposite. After \<open>forgotPassword\<close> has marked Cy's secret
  temporary, a login with the temporary secret and no \<open>isTemporaryPassword\<close> in the body
  succeeds and reports \<open>False\<close>; and on the untouched store, where Cy's secret is not
  temporary, a login that sends \<open>isTemporaryPassword = true\<close> is told \<open>True\<close>.
\<close>

theorem login_flag_follows_request_body:
  "map isTemporaryPassword
     (users (snd (forgotPassword demo_deps demo_io \<lparr>forgot_email = ''cy@x.com''\<rparr> demo_state)))
     = [True] \<and>
   map_sum id requirePasswordChange
     (loginUser demo_deps
        \<lparr>login_email = ''cy@x.com'', login_password = ''k3x9q2ab'',
         login_isTemporaryPassword = None\<rparr>
        (snd (forgotPassword demo_deps demo_io \<lparr>forgot_email = ''cy@x.com''\<rparr> demo_state)))
     = Inr False \<and>
   map isTemporaryPassword (users demo_state) = [False] \<and>
   map_sum id requirePasswordChange
     (loginUser demo_deps
        \<lparr>login_email = ''cy@x.com'', login_password = ''secret1'',
         login_isTemporaryPassword = Some True\<rparr> demo_state)
     = Inr True"
  by code_simp

text \<open>
  C7. Two logins that pass request validation, one with an email that no identity has,
  one with the email of an identity and a secret that does not verify, get the same
  error: status 401 with the message \<open>Invalid email or password\<close>.
\<close>

theorem login_unknown_email_same_as_wrong_secret:
  assumes "joi_login d b1 = None" and "joi_login d b2 = None"
    and "User_findOne (login_email b1) (users s1) = None"
    and "User_findOne (login_email b2) (users s2) = Some u"
    and "\<not> matchPassword d u (login_password b2)"
  shows "loginUser d b1 s1 = Inl (HttpError 401 ''Invalid email or password'') \<and>
         loginUser d b2 s2 = loginUser d b1 s1"
  using assms unfolding loginUser_def by simp

theorem login_unknown_email_same_as_wrong_secret_witness:
  "joi_login demo_deps
     \<lparr>login_email = ''nobody@x.com'', login_password = ''secret1'',
      login_isTemporaryPassword = None\<rparr> = None \<and>
   joi_login demo_deps
     \<lparr>login_email = ''cy@x.com'', login_password = ''wrong'',
      login_isTemporaryPassword = None\<rparr> = None \<and>
   User_findOne ''nobody@x.com'' (users demo_state) = None \<and>
   User_findOne ''cy@x.com'' (users demo_state) = Some cy \<and>
   \<not> matchPassword demo_deps cy ''wrong'' \<and>
   loginUser demo_deps
     \<lparr>login_email = ''nobody@x.com'', login_password = ''secret1'',
      login_isTemporaryPassword = None\<rparr> demo_state
     = Inl (HttpError 401 ''Invalid email or password'') \<and>
   loginUser demo_deps
     \<lparr>login_email = ''cy@x.com'', login_password = ''wrong'',
      login_isTemporaryPassword = None\<rparr> demo_state
     = loginUser demo_deps
         \<lparr>login_email = ''nobody@x.com'', login_password = ''secret1'',
          login_isTemporaryPassword = None\<rparr> demo_state"
proof -
  let ?b1 = "\<lparr>login_email = ''nobody@x.com'', login_password = ''secret1'',
              login_isTemporaryPassword = None\<rparr>"
  let ?b2 = "\<lparr>login_email = ''cy@x.com'', login_password = ''wrong'',
              login_isTemporaryPassword = None\<rparr>"
  have h1: "joi_login demo_deps ?b1 = None" by code_simp
  have h2: "joi_login demo_deps ?b2 = None" by code_simp
  have h3: "User_findOne (login_email ?b1) (users demo_state) = None" by code_simp
  have h4: "User_findOne (login_email ?b2) (users demo_state) = Some cy" by code_simp
  have h5: "\<not> matchPassword demo_deps cy (login_password ?b2)" by code_simp
  from login_unknown_email_same_as_wrong_secret [OF h1 h2 h3 h4 h5] h1 h2 h3 h4 h5
  show ?thesis by simp
qed

section \<open>Forgotten password\<close>

text \<open>
  C5. On a request that passes validation, \<open>forgotPassword\<close> fails with status 404 and
  changes nothing when no identity has the email. For an identity \<open>u\<close> with that email
  it stores the hash of the random temporary password and sets the temporary mark on the
  stored document of \<open>u\<close>, leaves the other users and all applications as they are, and
  sends the mail: when the send succeeds the mail with the temporary password is in the
  outbox and the handler answers; when it fails the handler logs and fails with status
  500 and the message \<open>Failed to send email. Please try again later.\<close>
\<close>

theorem forgotPassword_outcomes:
  assumes "joi_forgot d body = None"
  shows "(User_findOne (forgot_email body) (users st) = None \<longrightarrow>
            forgotPassword d i body st =
              (Inl (HttpError 404 ''User not found with this email''), st)) \<and>
         (\<forall>u. User_findOne (forgot_email body) (users st) = Some u \<longrightarrow>
            (let r = fst (forgotPassword d i body st);
                 st' = snd (forgotPassword d i body st);
                 u' = u\<lparr>user_password := bcrypt_hash d (salt i) (random_password i),
                        isTemporaryPassword := True\<rparr>
             in users st' = map (\<lambda>v. if user_id v = user_id u
                                      then v\<lparr>user_password :=
                                               bcrypt_hash d (salt i) (random_password i),
                                             isTemporaryPassword := True\<rparr>
                                      else v) (users st) \<and>
                User_findOne (forgot_email body) (users st') = Some u' \<and>
                applications st' = applications st \<and>
                (if mail_ok i
                 then r = Inr ''Temporary password sent to your email'' \<and>
                      outbox st' = outbox st @
                        [forgot_mail d (forgot_email body) u (random_password i)] \<and>
                      console st' = console st
                 else r = Inl (HttpError 500 ''Failed to send email. Please try again later.'') \<and>
                      outbox st' = outbox st \<and>
                      console st' = console st @ [''Email sending failed:''])))"
proof (intro conjI impI allI)
  assume "User_findOne (forgot_email body) (users st) = None"
  with assms show "forgotPassword d i body st =
      (Inl (HttpError 404 ''User not found with this email''), st)"
    unfolding forgotPassword_def by simp
next
  fix u
  assume found: "User_findOne (forgot_email body) (users st) = Some u"
  note again = forgotPassword_found_again [OF assms found, of i]
  show "let r = fst (forgotPassword d i body st);
            st' = snd (forgotPassword d i body st);
            u' = u\<lparr>user_password := bcrypt_hash d (salt i) (random_password i),
                   isTemporaryPassword := True\<rparr>
        in users st' = map (\<lambda>v. if user_id v = user_id u
                                 then v\<lparr>user_password :=
                                          bcrypt_hash d (salt i) (random_password i),
                                        isTemporaryPassword := True\<rparr>
                                 else v) (users st) \<and>
           User_findOne (forgot_email body) (users st') = Some u' \<and>
           applications st' = applications st \<and>
           (if mail_ok i
            then r = Inr ''Temporary password sent to your email'' \<and>
                 outbox st' = outbox st @
                   [forgot_mail d (forgot_email body) u (random_password i)] \<and>
                 console st' = console st
            else r = Inl (HttpError 500 ''Failed to send email. Please try again later.'') \<and>
                 outbox st' = outbox st \<and>
                 console st' = console st @ [''Email sending failed:''])"
    unfolding Let_def
  proof (intro conjI)
    show "User_findOne (forgot_email body) (users (snd (forgotPassword d i body st))) =
        Some (u\<lparr>user_password := bcrypt_hash d (salt i) (random_password i),
                isTemporaryPassword := True\<rparr>)"
      by (rule again)
  qed (simp_all add: forgotPassword_found [OF assms found] Let_def)
qed

theorem forgotPassword_outcomes_witness:
  "joi_forgot demo_deps \<lparr>forgot_email = ''nobody@x.com''\<rparr> = None \<and>
   User_findOne ''nobody@x.com'' (users demo_state) = None \<and>
   forgotPassword demo_deps demo_io \<lparr>forgot_email = ''nobody@x.com''\<rparr> demo_state =
     (Inl (HttpError 404 ''User not found with this email''), demo_state) \<and>
   joi_forgot demo_deps \<lparr>forgot_email = ''cy@x.com''\<rparr> = None \<and>
   User_findOne ''cy@x.com'' (users demo_state) = Some cy \<and>
   fst (forgotPassword demo_deps (demo_io\<lparr>mail_ok := False\<rparr>)
          \<lparr>forgot_email = ''cy@x.com''\<rparr> demo_state) =
     Inl (HttpError 500 ''Failed to send email. Please try again later.'') \<and>
   fst (forgotPassword demo_deps demo_io \<lparr>forgot_email = ''cy@x.com''\<rparr> demo_state) =
     Inr ''Temporary password sent to your email'' \<and>
   User_findOne ''cy@x.com''
     (users (snd (forgotPassword demo_deps demo_io \<lparr>forgot_email = ''cy@x.com''\<rparr> demo_state))) =
     Some (cy\<lparr>user_password := bcrypt_hash demo_deps ''s1'' ''k3x9q2ab'',
              isTemporaryPassword := True\<rparr>)"
proof -
  let ?nobody = "\<lparr>forgot_email = ''nobody@x.com''\<rparr>"
  let ?cy = "\<lparr>forgot_email = ''cy@x.com''\<rparr>"
  have j1: "joi_forgot demo_deps ?nobody = None" by code_simp
  have j2: "joi_forgot demo_deps ?cy = None" by code_simp
  have f1: "User_findOne (forgot_email ?nobody) (users demo_state) = None" by code_simp
  have f2: "User_findOne (forgot_email ?cy) (users demo_state) = Some cy" by code_simp
  have io: "mail_ok demo_io" "salt demo_io = ''s1''" "random_password demo_io = ''k3x9q2ab''"
    by (simp_all add: demo_io_def)
  note a = forgotPassword_outcomes [OF j1, of demo_state demo_io, THEN conjunct1, rule_format, OF f1]
  note b = forgotPassword_outcomes [OF j2, of demo_state "demo_io\<lparr>mail_ok := False\<rparr>",
      THEN conjunct2, rule_format, OF f2, unfolded Let_def]
  note c = forgotPassword_outcomes [OF j2, of demo_state demo_io,
      THEN conjunct2, rule_format, OF f2, unfolded Let_def]
  from a have r1: "forgotPassword demo_deps demo_io ?nobody demo_state =
      (Inl (HttpError 404 ''User not found with this email''), demo_state)" .
  from b have "if mail_ok (demo_io\<lparr>mail_ok := False\<rparr>)
      then fst (forgotPassword demo_deps (demo_io\<lparr>mail_ok := False\<rparr>) ?cy demo_state) =
           Inr ''Temporary password sent to your email'' \<and>
           outbox (snd (forgotPassword demo_deps (demo_io\<lparr>mail_ok := False\<rparr>) ?cy demo_state))
             = outbox demo_state @
               [forgot_mail demo_deps (forgot_email ?cy) cy
                  (random_password (demo_io\<lparr>mail_ok := False\<rparr>))] \<and>
           console (snd (forgotPassword demo_deps (demo_io\<lparr>mail_ok := False\<rparr>) ?cy demo_state))
             = console demo_state
      else fst (forgotPassword demo_deps (demo_io\<lparr>mail_ok := False\<rparr>) ?cy demo_state) =
           Inl (HttpError 500 ''Failed to send email. Please try again later.'') \<and>
           outbox (snd (forgotPassword demo_deps (demo_io\<lparr>mail_ok := False\<rparr>) ?cy demo_state))
             = outbox demo_state \<and>
           console (snd (forgotPassword demo_deps (demo_io\<lparr>mail_ok := False\<rparr>) ?cy demo_state))
             = console demo_state @ [''Email sending failed:'']"
    by (elim conjE)
  then have r2: "fst (forgotPassword demo_deps (demo_io\<lparr>mail_ok := False\<rparr>) ?cy demo_state) =
      Inl (HttpError 500 ''Failed to send email. Please try again later.'')"
    by simp
  from c have "if mail_ok demo_io
      then fst (forgotPassword demo_deps demo_io ?cy demo_state) =
           Inr ''Temporary password sent to your email'' \<and>
           outbox (snd (forgotPassword demo_deps demo_io ?cy demo_state))
             = outbox demo_state @
               [forgot_mail demo_deps (forgot_email ?cy) cy (random_password demo_io)] \<and>
           console (snd (forgotPassword demo_deps demo_io ?cy demo_state)) = console demo_state
      else fst (forgotPassword demo_deps demo_io ?cy demo_state) =
           Inl (HttpError 500 ''Failed to send email. Please try again later.'') \<and>
           outbox (snd (forgotPassword demo_deps demo_io ?cy demo_state)) = outbox demo_state \<and>
           console (snd (forgotPassword demo_deps demo_io ?cy demo_state))
             = console demo_state @ [''Email sending failed:'']"
    by (elim conjE)
  with io have r3: "fst (forgotPassword demo_deps demo_io ?cy demo_state) =
      Inr ''Temporary password sent to your email''"
    by simp
  from c have "User_findOne (forgot_email ?cy)
      (users (snd (forgotPassword demo_deps demo_io ?cy demo_state))) =
      Some (cy\<lparr>user_password := bcrypt_hash demo_deps (salt demo_io) (random_password demo_io),
               isTemporaryPassword := True\<rparr>)"
    by (elim conjE)
  with io have r4: "User_findOne ''cy@x.com''
      (users (snd (forgotPassword demo_deps demo_io ?cy demo_state))) =
      Some (cy\<lparr>user_password := bcrypt_hash demo_deps ''s1'' ''k3x9q2ab'',
               isTemporaryPassword := True\<rparr>)"
    by simp
  from j1 j2 f1 f2 r1 r2 r3 r4 show ?thesis by simp
qed

text \<open>
  C10. Whenever \<open>forgotPassword\<close> fails with the delivery error (status 500,
  \<open>Failed to send email. Please try again later.\<close>), the identity with that email is
  already stored with the hash of the new temporary password and with the temporary mark
  set. The stored hash is the only one a login verifies against: a secret that does not
  verify against the hash of the temporary password, as the old secret does not, is
  refused by \<open>matchPassword\<close>, and a login with it fails with status 401.
\<close>

theorem forgotPassword_delivery_failure_not_atomic:
  assumes failed: "forgotPassword d i body st =
      (Inl (HttpError 500 ''Failed to send email. Please try again later.''), st')"
  shows "\<exists>u. User_findOne (forgot_email body) (users st) = Some u \<and>
           User_findOne (forgot_email body) (users st') =
             Some (u\<lparr>user_password := bcrypt_hash d (salt i) (random_password i),
                     isTemporaryPassword := True\<rparr>) \<and>
           (\<forall>old. \<not> bcrypt_compare d old (bcrypt_hash d (salt i) (random_password i)) \<longrightarrow>
              \<not> matchPassword d
                  (u\<lparr>user_password := bcrypt_hash d (salt i) (random_password i),
                     isTemporaryPassword := True\<rparr>) old \<and>
              (\<forall>flag. joi_login d \<lparr>login_email = forgot_email body, login_password = old,
                                     login_isTemporaryPassword = flag\<rparr> = None \<longrightarrow>
                 loginUser d \<lparr>login_email = forgot_email body, login_password = old,
                              login_isTemporaryPassword = flag\<rparr> st' =
                   Inl (HttpError 401 ''Invalid email or password'')))"
proof -
  from failed have joi: "joi_forgot d body = None"
    unfolding forgotPassword_def by (auto split: option.splits)
  from failed joi obtain u where found: "User_findOne (forgot_email body) (users st) = Some u"
    unfolding forgotPassword_def by (auto split: option.splits)
  let ?u' = "u\<lparr>user_password := bcrypt_hash d (salt i) (random_password i),
               isTemporaryPassword := True\<rparr>"
  have again: "User_findOne (forgot_email body) (users (snd (forgotPassword d i body st))) = Some ?u'"
    by (rule forgotPassword_found_again [OF joi found])
  with failed have stored: "User_findOne (forgot_email body) (users st') = Some ?u'"
    by simp
  have "loginUser d \<lparr>login_email = forgot_email body, login_password = old,
                     login_isTemporaryPassword = flag\<rparr> st' =
          Inl (HttpError 401 ''Invalid email or password'')"
    if "\<not> bcrypt_compare d old (bcrypt_hash d (salt i) (random_password i))"
      and "joi_login d \<lparr>login_email = forgot_email body, login_password = old,
                        login_isTemporaryPassword = flag\<rparr> = None"
    for old flag
    using that stored unfolding loginUser_def matchPassword_def by simp
  with found stored show ?thesis
    unfolding matchPassword_def by auto
qed

theorem forgotPassword_delivery_failure_not_atomic_witness:
  "fst (forgotPassword demo_deps (demo_io\<lparr>mail_ok := False\<rparr>)
          \<lparr>forgot_email = ''cy@x.com''\<rparr> demo_state) =
     Inl (HttpError 500 ''Failed to send email. Please try again later.'') \<and>
   matchPassword demo_deps cy ''secret1'' \<and>
   \<not> bcrypt_compare demo_deps ''secret1'' (bcrypt_hash demo_deps ''s1'' ''k3x9q2ab'') \<and>
   loginUser demo_deps
     \<lparr>login_email = ''cy@x.com'', login_password = ''secret1'',
      login_isTemporaryPassword = None\<rparr>
     (snd (forgotPassword demo_deps (demo_io\<lparr>mail_ok := False\<rparr>)
             \<lparr>forgot_email = ''cy@x.com''\<rparr> demo_state)) =
     Inl (HttpError 401 ''Invalid email or password'')"
proof -
  let ?i = "demo_io\<lparr>mail_ok := False\<rparr>"
  let ?b = "\<lparr>forgot_email = ''cy@x.com''\<rparr>"
  let ?st' = "snd (forgotPassword demo_deps ?i ?b demo_state)"
  have r: "fst (forgotPassword demo_deps ?i ?b demo_state) =
      Inl (HttpError 500 ''Failed to send email. Please try again later.'')"
    by code_simp
  then have h: "forgotPassword demo_deps ?i ?b demo_state =
      (Inl (HttpError 500 ''Failed to send email. Please try again later.''), ?st')"
    by (simp add: prod_eq_iff)
  have before: "matchPassword demo_deps cy ''secret1''" by code_simp
  have io: "salt ?i = ''s1''" "random_password ?i = ''k3x9q2ab''"
    by (simp_all add: demo_io_def)
  have old: "\<not> bcrypt_compare demo_deps ''secret1'' (bcrypt_hash demo_deps ''s1'' ''k3x9q2ab'')"
    by code_simp
  have joi: "joi_login demo_deps \<lparr>login_email = ''cy@x.com'', login_password = ''secret1'',
                                   login_isTemporaryPassword = None\<rparr> = None"
    by code_simp
  from forgotPassword_delivery_failure_not_atomic [OF h] old joi io
  have "loginUser demo_deps
     \<lparr>login_email = ''cy@x.com'', login_password = ''secret1'',
      login_isTemporaryPassword = None\<rparr> ?st' =
     Inl (HttpError 401 ''Invalid email or password'')"
    by auto
  with r before old show ?thesis by simp
qed

section \<open>Facts about the application store\<close>

lemma find_append:
  "find P (xs @ ys) = (case find P xs of None \<Rightarrow> find P ys | Some x \<Rightarrow> Some x)"
  by (induction xs) simp_all

lemma load_pending_Inr:
  assumes "load_pending aid st = Inr a"
  shows "InstructorApplication_findById aid (applications st) = Some a"
    and "status a = Pending" and "app_id a = aid" and "a \<in> set (applications st)"
proof -
  from assms show f: "InstructorApplication_findById aid (applications st) = Some a"
    unfolding load_pending_def by (auto split: option.splits if_splits)
  from assms show "status a = Pending"
    unfolding load_pending_def by (auto split: option.splits if_splits)
  from f show "app_id a = aid" and "a \<in> set (applications st)"
    unfolding InstructorApplication_findById_def by (auto dest: find_Some_in_set)
qed

lemma load_pending_processed:
  "processed aid st \<Longrightarrow>
     load_pending aid st = Inl (HttpError 400 ''Application has already been processed'')"
  unfolding processed_def load_pending_def by (auto split: option.splits)

lemma findById_map:
  assumes "\<And>a. app_id (g a) = app_id a"
  shows "InstructorApplication_findById j (map g as) =
         map_option g (InstructorApplication_findById j as)"
  unfolding InstructorApplication_findById_def
  by (rule find_map_same) (simp add: assms)

lemma processed_map:
  assumes "processed aid st"
    and "applications st' = map g (applications st)"
    and "\<And>a. app_id (g a) = app_id a"
    and "\<And>a. status a \<noteq> Pending \<Longrightarrow> status (g a) \<noteq> Pending"
  shows "processed aid st'"
  using assms(1,4) unfolding processed_def assms(2) findById_map [of g, OF assms(3)]
  by (auto split: option.splits)

lemma processed_append:
  assumes "processed aid st" and "applications st' = applications st @ as"
  shows "processed aid st'"
  using assms(1) unfolding processed_def assms(2) InstructorApplication_findById_def find_append
  by (auto split: option.splits)

lemma processed_same:
  "processed aid st \<Longrightarrow> applications st' = applications st \<Longrightarrow> processed aid st'"
  unfolding processed_def by simp

lemma save_Inr:
  assumes "a \<in> set (applications st)"
  shows "InstructorApplication_save (app_id a) f st =
     Inr (st\<lparr>applications :=
               map (\<lambda>b. if app_id b = app_id a then f b else b) (applications st)\<rparr>)"
  using assms unfolding InstructorApplication_save_def by auto

lemma send_or_log_stores [simp]:
  "users (send_or_log i m l st) = users st"
  "applications (send_or_log i m l st) = applications st"
  "next_id (send_or_log i m l st) = next_id st"
  unfolding send_or_log_def by simp_all

lemma approve_create_user_applications:
  "approve_create_user a st = Inr (u, st1) \<Longrightarrow> applications st1 = applications st"
  unfolding approve_create_user_def User_create_def
  by (auto simp: Let_def split: if_splits)

text \<open>What a successful approval and a successful rejection leave in the store.\<close>

lemma approveApplication_Inr:
  assumes "load_pending aid st = Inr a" and "approve_create_user a st = Inr (u, st1)"
  shows "approveApplication d i aid admin st =
     approve_finish d i a u
       (st1\<lparr>applications :=
              map (\<lambda>b. if app_id b = aid
                        then b\<lparr>status := Approved, approvedBy := Some admin,
                               approvedAt := Some (now i), updatedAt := now i\<rparr>
                        else b) (applications st)\<rparr>)"
proof -
  from load_pending_Inr [OF assms(1)] approve_create_user_applications [OF assms(2)]
  have "a \<in> set (applications st1)" and aid: "app_id a = aid"
    and same: "applications st1 = applications st"
    by simp_all
  from save_Inr [OF this(1)] aid same
  have "approve_save i admin a st1 =
     Inr (st1\<lparr>applications :=
              map (\<lambda>b. if app_id b = aid
                        then b\<lparr>status := Approved, approvedBy := Some admin,
                               approvedAt := Some (now i), updatedAt := now i\<rparr>
                        else b) (applications st)\<rparr>)"
    unfolding approve_save_def by simp
  with assms show ?thesis
    unfolding approveApplication_def by simp
qed

lemma rejectApplication_Inr:
  assumes "load_pending aid st = Inr a"
  shows "rejectApplication d i aid admin reason st =
     reject_finish d i reason a
       (st\<lparr>applications :=
             map (\<lambda>b. if app_id b = aid
                       then b\<lparr>status := Rejected, rejectedBy := Some admin,
                              rejectedAt := Some (now i),
                              rejectionReason := map_option trim reason, updatedAt := now i\<rparr>
                       else b) (applications st)\<rparr>)"
proof -
  from load_pending_Inr [OF assms]
  have mem: "a \<in> set (applications st)" and aid: "app_id a = aid"
    by simp_all
  from save_Inr [OF mem] aid
  have "reject_save i admin reason a st =
     Inr (st\<lparr>applications :=
             map (\<lambda>b. if app_id b = aid
                       then b\<lparr>status := Rejected, rejectedBy := Some admin,
                              rejectedAt := Some (now i),
                              rejectionReason := map_option trim reason, updatedAt := now i\<rparr>
                       else b) (applications st)\<rparr>)"
    unfolding reject_save_def by simp
  with assms show ?thesis
    unfolding rejectApplication_def by simp
qed

lemma approveApplication_Inl:
  assumes "approveApplication d i aid admin st = (Inl e, st')"
  shows "st' = st"
proof (cases "load_pending aid st")
  case (Inl e')
  with assms show ?thesis unfolding approveApplication_def by simp
next
  case (Inr a)
  show ?thesis
  proof (cases "approve_create_user a st")
    case (Inl e')
    with Inr assms show ?thesis unfolding approveApplication_def by simp
  next
    case right: (Inr p)
    obtain u st1 where "p = (u, st1)" by (cases p)
    with right have "approve_create_user a st = Inr (u, st1)" by simp
    from approveApplication_Inr [OF Inr this, of d i admin] assms
    show ?thesis unfolding approve_finish_def by simp
  qed
qed

lemma rejectApplication_Inl:
  assumes "rejectApplication d i aid admin reason st = (Inl e, st')"
  shows "st' = st"
proof (cases "load_pending aid st")
  case (Inl e')
  with assms show ?thesis unfolding rejectApplication_def by simp
next
  case (Inr a)
  from rejectApplication_Inr [OF Inr, of d i admin reason] assms
  show ?thesis unfolding reject_finish_def by simp
qed

lemma approveApplication_Inr_processed:
  assumes "approveApplication d i aid admin st = (Inr r, st')"
  shows "load_pending aid st \<noteq> Inl (HttpError 400 ''Application has already been processed'')"
    and "\<exists>a. load_pending aid st = Inr a" and "processed aid st'"
proof -
  from assms obtain a where a: "load_pending aid st = Inr a"
    unfolding approveApplication_def by (auto split: sum.splits)
  then show "\<exists>a. load_pending aid st = Inr a"
    and "load_pending aid st \<noteq> Inl (HttpError 400 ''Application has already been processed'')"
    by simp_all
  from assms a obtain u st1 where c: "approve_create_user a st = Inr (u, st1)"
    unfolding approveApplication_def by (auto split: sum.splits)
  let ?g = "\<lambda>b. if app_id b = aid
                 then b\<lparr>status := Approved, approvedBy := Some admin,
                        approvedAt := Some (now i), updatedAt := now i\<rparr>
                 else b"
  from approveApplication_Inr [OF a c, of d i admin] assms
  have apps: "applications st' = map ?g (applications st)"
    unfolding approve_finish_def by auto
  have "InstructorApplication_findById aid (map ?g (applications st)) =
          map_option ?g (InstructorApplication_findById aid (applications st))"
    by (rule findById_map) simp
  with load_pending_Inr(1,3) [OF a] show "processed aid st'"
    unfolding processed_def apps by simp
qed

lemma rejectApplication_Inr_processed:
  assumes "rejectApplication d i aid admin reason st = (Inr m, st')"
  shows "\<exists>a. load_pending aid st = Inr a" and "processed aid st'"
proof -
  from assms obtain a where a: "load_pending aid st = Inr a"
    unfolding rejectApplication_def by (auto split: sum.splits)
  then show "\<exists>a. load_pending aid st = Inr a" by simp
  let ?g = "\<lambda>b. if app_id b = aid
                 then b\<lparr>status := Rejected, rejectedBy := Some admin,
                        rejectedAt := Some (now i),
                        rejectionReason := map_option trim reason, updatedAt := now i\<rparr>
                 else b"
  from rejectApplication_Inr [OF a, of d i admin reason] assms
  have apps: "applications st' = map ?g (applications st)"
    unfolding reject_finish_def by auto
  have "InstructorApplication_findById aid (map ?g (applications st)) =
          map_option ?g (InstructorApplication_findById aid (applications st))"
    by (rule findById_map) simp
  with load_pending_Inr(1,3) [OF a] show "processed aid st'"
    unfolding processed_def apps by simp
qed

text \<open>No handler takes an application back to \<open>pending\<close>.\<close>

lemma processed_submit:
  "processed aid st \<Longrightarrow> processed aid (snd (submitApplication d i body st))"
proof -
  assume p: "processed aid st"
  have "applications (snd (submitApplication d i body st)) = applications st \<or>
        (\<exists>a. applications (snd (submitApplication d i body st)) = applications st @ [a])"
    unfolding submitApplication_def InstructorApplication_create_def
    by (auto simp: Let_def split: option.splits sum.splits if_splits)
  with p show ?thesis
    by (auto intro: processed_same processed_append)
qed

lemma processed_approve:
  assumes "processed aid st"
  shows "processed aid (snd (approveApplication d i a admin st))"
proof (cases "approveApplication d i a admin st")
  case (Pair res st')
  show ?thesis
  proof (cases res)
    case (Inl e)
    with Pair approveApplication_Inl [of d i a admin st e st'] assms show ?thesis by simp
  next
    case (Inr r)
    with Pair have ok: "approveApplication d i a admin st = (Inr r, st')" by simp
    from approveApplication_Inr_processed(2) [OF ok] obtain b
      where b: "load_pending a st = Inr b" by blast
    from ok b obtain u st1 where c: "approve_create_user b st = Inr (u, st1)"
      unfolding approveApplication_def by (auto split: sum.splits)
    from approveApplication_Inr [OF b c, of d i admin] ok
    have "applications st' =
        map (\<lambda>b. if app_id b = a
                  then b\<lparr>status := Approved, approvedBy := Some admin,
                         approvedAt := Some (now i), updatedAt := now i\<rparr>
                  else b) (applications st)"
      unfolding approve_finish_def by auto
    from processed_map [OF assms this] Pair show ?thesis by simp
  qed
qed

lemma processed_reject:
  assumes "processed aid st"
  shows "processed aid (snd (rejectApplication d i a admin reason st))"
proof (cases "rejectApplication d i a admin reason st")
  case (Pair res st')
  show ?thesis
  proof (cases res)
    case (Inl e)
    with Pair rejectApplication_Inl [of d i a admin reason st e st'] assms show ?thesis by simp
  next
    case (Inr m)
    with Pair have ok: "rejectApplication d i a admin reason st = (Inr m, st')" by simp
    from rejectApplication_Inr_processed(1) [OF ok] obtain b
      where b: "load_pending a st = Inr b" by blast
    from rejectApplication_Inr [OF b, of d i admin reason] ok
    have "applications st' =
        map (\<lambda>b. if app_id b = a
                  then b\<lparr>status := Rejected, rejectedBy := Some admin,
                         rejectedAt := Some (now i),
                         rejectionReason := map_option trim reason, updatedAt := now i\<rparr>
                  else b) (applications st)"
      unfolding reject_finish_def by auto
    from processed_map [OF assms this] Pair show ?thesis by simp
  qed
qed

lemma processed_forgot:
  "processed aid st \<Longrightarrow> processed aid (snd (forgotPassword d i body st))"
proof -
  assume p: "processed aid st"
  have "applications (snd (forgotPassword d i body st)) = applications st"
    unfolding forgotPassword_def
    by (auto simp: Let_def split: option.splits sum.splits)
  with p show ?thesis by (rule processed_same)
qed

lemma processed_no_identity:
  "processed aid st \<Longrightarrow> identities_created d aid cs st = []"
proof (induction cs arbitrary: st)
  case Nil
  show ?case by simp
next
  case (Cons c cs)
  obtain i k where c: "c = (i, k)" by (cases c)
  show ?case
  proof (cases k)
    case (Submit body)
    with c Cons.IH [OF processed_submit [OF Cons.prems]] show ?thesis by simp
  next
    case (Approve a admin)
    obtain res st' where r: "approveApplication d i a admin st = (res, st')"
      by (cases "approveApplication d i a admin st")
    from processed_approve [OF Cons.prems, of d i a admin] r have p': "processed aid st'"
      by simp
    show ?thesis
    proof (cases res)
      case (Inl e)
      with c Approve r Cons.IH [OF p'] show ?thesis by simp
    next
      case (Inr resp)
      with r have ok: "approveApplication d i a admin st = (Inr resp, st')" by simp
      have "a \<noteq> aid"
      proof
        assume "a = aid"
        with approveApplication_Inr_processed(1) [OF ok] load_pending_processed [OF Cons.prems]
        show False by simp
      qed
      with c Approve ok Cons.IH [OF p'] show ?thesis by simp
    qed
  next
    case (Reject a admin reason)
    with c Cons.IH [OF processed_reject [OF Cons.prems]] show ?thesis by simp
  next
    case (Forgot body)
    with c Cons.IH [OF processed_forgot [OF Cons.prems]] show ?thesis by simp
  qed
qed

lemma at_most_one_identity: "length (identities_created d aid cs st) \<le> 1"
proof (induction cs arbitrary: st)
  case Nil
  show ?case by simp
next
  case (Cons c cs)
  obtain i k where c: "c = (i, k)" by (cases c)
  show ?case
  proof (cases k)
    case (Submit body)
    with c Cons.IH show ?thesis by simp
  next
    case (Approve a admin)
    obtain res st' where r: "approveApplication d i a admin st = (res, st')"
      by (cases "approveApplication d i a admin st")
    show ?thesis
    proof (cases res)
      case (Inl e)
      with c Approve r Cons.IH show ?thesis by simp
    next
      case (Inr resp)
      with r have ok: "approveApplication d i a admin st = (Inr resp, st')" by simp
      show ?thesis
      proof (cases "a = aid")
        case True
        with approveApplication_Inr_processed(3) [OF ok] have "processed aid st'" by simp
        from processed_no_identity [OF this] c Approve ok True show ?thesis by simp
      next
        case False
        with c Approve ok Cons.IH show ?thesis by simp
      qed
    qed
  next
    case (Reject a admin reason)
    with c Cons.IH show ?thesis by simp
  next
    case (Forgot body)
    with c Cons.IH show ?thesis by simp
  qed
qed

lemma processed_perform: "processed aid st \<Longrightarrow> processed aid (perform d c st)"
proof -
  assume p: "processed aid st"
  obtain i k where c: "c = (i, k)" by (cases c)
  from p show ?thesis
    unfolding c
    by (cases k)
       (simp_all add: processed_submit processed_approve processed_reject processed_forgot)
qed

lemma processed_run: "processed aid st \<Longrightarrow> processed aid (run d cs st)"
  by (induction cs arbitrary: st) (simp_all add: processed_perform)

section \<open>Approval and rejection\<close>

text \<open>
  C2. When an approval has loaded a pending application and the creation of the user
  fails, the handler fails with the error of the creation and the state is the one before
  the call: the application is stored as it was loaded, status \<open>pending\<close>, audit fields
  untouched, and it can be loaded as pending again.
\<close>

theorem approve_create_failure_leaves_pending:
  assumes "load_pending aid st = Inr a" and "approve_create_user a st = Inl e"
  shows "approveApplication d i aid admin st = (Inl e, st) \<and>
         InstructorApplication_findById aid
           (applications (snd (approveApplication d i aid admin st))) = Some a \<and>
         status a = Pending \<and>
         load_pending aid (snd (approveApplication d i aid admin st)) = Inr a"
proof -
  from assms have "approveApplication d i aid admin st = (Inl e, st)"
    unfolding approveApplication_def by simp
  with load_pending_Inr(1,2) [OF assms(1)] assms(1) show ?thesis by simp
qed

theorem approve_create_failure_leaves_pending_witness:
  "load_pending 1 (demo_state\<lparr>users := [cy\<lparr>user_email := ''bob@x.com''\<rparr>]\<rparr>) = Inr bob_application \<and>
   approve_create_user bob_application (demo_state\<lparr>users := [cy\<lparr>user_email := ''bob@x.com''\<rparr>]\<rparr>)
     = Inl (DuplicateKey ''email'') \<and>
   approveApplication demo_deps demo_io 1 7 (demo_state\<lparr>users := [cy\<lparr>user_email := ''bob@x.com''\<rparr>]\<rparr>)
     = (Inl (DuplicateKey ''email''), demo_state\<lparr>users := [cy\<lparr>user_email := ''bob@x.com''\<rparr>]\<rparr>) \<and>
   status bob_application = Pending \<and> approvedBy bob_application = None \<and>
   approvedAt bob_application = None"
proof -
  let ?st = "demo_state\<lparr>users := [cy\<lparr>user_email := ''bob@x.com''\<rparr>]\<rparr>"
  have h1: "load_pending 1 ?st = Inr bob_application" by code_simp
  have h2: "approve_create_user bob_application ?st = Inl (DuplicateKey ''email'')" by code_simp
  have h3: "approvedBy bob_application = None" "approvedAt bob_application = None"
    by (simp_all add: bob_application_def)
  from approve_create_failure_leaves_pending [OF h1 h2, of demo_deps demo_io 7] h1 h2 h3
  show ?thesis by simp
qed

text \<open>
  C3. Approve and Reject succeed only on an application whose loaded status is
  \<open>pending\<close>; on a loaded application with any other status both fail with status 400,
  \<open>Application has already been processed\<close>, and change nothing. So after a first
  successful Approve or Reject of an application every further Approve or Reject of it
  fails in that way, whoever calls and whatever run of calls came in between (submissions,
  approvals and rejections of any application, password resets), and along any run of
  calls the approvals of one application create at most one user.
\<close>

theorem status_transitions_monotonic:
  "(\<forall>r st'. approveApplication d i aid admin st = (Inr r, st') \<longrightarrow>
      (\<exists>a. InstructorApplication_findById aid (applications st) = Some a \<and> status a = Pending) \<and>
      processed aid st') \<and>
   (\<forall>m st'. rejectApplication d i aid admin reason st = (Inr m, st') \<longrightarrow>
      (\<exists>a. InstructorApplication_findById aid (applications st) = Some a \<and> status a = Pending) \<and>
      processed aid st') \<and>
   (processed aid st \<longrightarrow>
      approveApplication d i aid admin (run d cs st) =
        (Inl (HttpError 400 ''Application has already been processed''), run d cs st) \<and>
      rejectApplication d i aid admin reason (run d cs st) =
        (Inl (HttpError 400 ''Application has already been processed''), run d cs st)) \<and>
   length (identities_created d aid cs st) \<le> 1"
proof (intro conjI allI impI)
  fix r st'
  assume ok: "approveApplication d i aid admin st = (Inr r, st')"
  from approveApplication_Inr_processed(2) [OF ok] obtain a
    where "load_pending aid st = Inr a" by blast
  from load_pending_Inr(1,2) [OF this]
  show "\<exists>a. InstructorApplication_findById aid (applications st) = Some a \<and> status a = Pending"
    by blast
  from approveApplication_Inr_processed(3) [OF ok] show "processed aid st'" .
next
  fix m st'
  assume ok: "rejectApplication d i aid admin reason st = (Inr m, st')"
  from rejectApplication_Inr_processed(1) [OF ok] obtain a
    where "load_pending aid st = Inr a" by blast
  from load_pending_Inr(1,2) [OF this]
  show "\<exists>a. InstructorApplication_findById aid (applications st) = Some a \<and> status a = Pending"
    by blast
  from rejectApplication_Inr_processed(2) [OF ok] show "processed aid st'" .
next
  assume "processed aid st"
  then have p: "processed aid (run d cs st)"
    by (rule processed_run)
  from load_pending_processed [OF p]
  show "approveApplication d i aid admin (run d cs st) =
      (Inl (HttpError 400 ''Application has already been processed''), run d cs st)"
    unfolding approveApplication_def by simp
  from load_pending_processed [OF p]
  show "rejectApplication d i aid admin reason (run d cs st) =
      (Inl (HttpError 400 ''Application has already been processed''), run d cs st)"
    unfolding rejectApplication_def by simp
next
  show "length (identities_created d aid cs st) \<le> 1"
    by (rule at_most_one_identity)
qed

theorem status_transitions_monotonic_witness:
  "fst (approveApplication demo_deps demo_io 1 7 demo_state) =
     Inr \<lparr>approve_message = ''Application approved successfully'', approved_id = 2,
          approved_name = ''Bob'', approved_email = ''bob@x.com'',
          approved_role = ''instructor''\<rparr> \<and>
   processed 1 (snd (approveApplication demo_deps demo_io 1 7 demo_state)) \<and>
   approveApplication demo_deps demo_io 1 8
       (run demo_deps [(demo_io, Submit ada_body), (demo_io, Reject 3 7 None)]
          (snd (approveApplication demo_deps demo_io 1 7 demo_state))) =
     (Inl (HttpError 400 ''Application has already been processed''),
      run demo_deps [(demo_io, Submit ada_body), (demo_io, Reject 3 7 None)]
        (snd (approveApplication demo_deps demo_io 1 7 demo_state))) \<and>
   rejectApplication demo_deps demo_io 1 8 None
       (snd (approveApplication demo_deps demo_io 1 7 demo_state)) =
     (Inl (HttpError 400 ''Application has already been processed''),
      snd (approveApplication demo_deps demo_io 1 7 demo_state)) \<and>
   identities_created demo_deps 1
     [(demo_io, Approve 1 7), (demo_io, Submit ada_body), (demo_io, Approve 1 8)] demo_state = [2]"
proof -
  let ?st' = "snd (approveApplication demo_deps demo_io 1 7 demo_state)"
  let ?cs = "[(demo_io, Submit ada_body), (demo_io, Reject 3 7 None)]"
  let ?r = "\<lparr>approve_message = ''Application approved successfully'', approved_id = 2,
            approved_name = ''Bob'', approved_email = ''bob@x.com'',
            approved_role = ''instructor''\<rparr>"
  have r: "fst (approveApplication demo_deps demo_io 1 7 demo_state) = Inr ?r"
    by code_simp
  then have ok: "approveApplication demo_deps demo_io 1 7 demo_state = (Inr ?r, ?st')"
    by (simp add: prod_eq_iff)
  from status_transitions_monotonic [of demo_deps demo_io 1 7 demo_state, THEN conjunct1,
      rule_format, OF ok]
  have p: "processed 1 ?st'" by (elim conjE)
  from status_transitions_monotonic [of demo_deps demo_io 1 8 ?st' None ?cs,
      THEN conjunct2, THEN conjunct2, THEN conjunct1, rule_format, OF p]
  have app: "approveApplication demo_deps demo_io 1 8 (run demo_deps ?cs ?st') =
      (Inl (HttpError 400 ''Application has already been processed''), run demo_deps ?cs ?st')"
    by (elim conjE)
  from status_transitions_monotonic [of demo_deps demo_io 1 8 ?st' None "[]",
      THEN conjunct2, THEN conjunct2, THEN conjunct1, rule_format, OF p, unfolded run.simps]
  have rej: "rejectApplication demo_deps demo_io 1 8 None ?st' =
      (Inl (HttpError 400 ''Application has already been processed''), ?st')"
    by (elim conjE)
  have ids: "identities_created demo_deps 1
     [(demo_io, Approve 1 7), (demo_io, Submit ada_body), (demo_io, Approve 1 8)] demo_state = [2]"
    by code_simp
  show ?thesis
    by (intro conjI) (fact r p app rej ids)+
qed

section \<open>Submission\<close>

lemma submitApplication_fresh:
  assumes "joi_submit d body = None"
    and "User_findOne (submit_email body) (users st) = None"
    and "InstructorApplication_findOne (submit_email body) (applications st) = None"
  shows "submitApplication d i body st =
     (case InstructorApplication_create d i (submit_name body) (submit_email body)
             (submit_password body) (submit_profile body) st of
        Inl e \<Rightarrow> (Inl e, st)
      | Inr (application, st1) \<Rightarrow>
          (Inr \<lparr>submit_status = 201, submit_success = True,
                submit_message = ''Instructor application submitted successfully'',
                applicationId = app_id application\<rparr>,
           send_or_log i (submit_mail d body) ''Failed to send admin notification email:'' st1))"
  using assms unfolding submitApplication_def by simp

lemma create_fresh:
  assumes "InstructorApplication_findOne em (applications st) = None"
  shows "InstructorApplication_create d i nm em pw p st =
     (let bad = failing_paths d (trim nm) (normalize_email em) pw (trim_profile p);
          a = \<lparr>app_id = next_id st, app_name = trim nm, app_email = normalize_email em,
               app_password = bcrypt_hash d (salt i) pw, app_profile = trim_profile p,
               status = Pending, approvedBy = None, approvedAt = None,
               rejectedBy = None, rejectedAt = None, rejectionReason = None,
               createdAt = now i, updatedAt = now i\<rparr>
      in if bad \<noteq> {} then Inl (ValidationError bad)
         else Inr (a, st\<lparr>applications := applications st @ [a], next_id := Suc (next_id st)\<rparr>))"
proof -
  from assms have "\<not> (\<exists>a \<in> set (applications st). app_email a = normalize_email em)"
    unfolding InstructorApplication_findOne_def find_None_iff by blast
  then show ?thesis
    unfolding InstructorApplication_create_def Let_def by simp
qed

text \<open>
  C4, as the claim states it, fails. The request below passes the request validation
  (any non-empty string is an experience there) and its email is in neither store, yet
  nothing is stored and no id is returned: the application schema takes only the four
  listed experience levels, so \<^verbatim>\<open>InstructorApplication.create\<close> throws a validation
  error on \<^verbatim>\<open>profile.experience\<close>. (The same happens to a name, bio, expertise or
  education of white space only, which the trim setter empties.)
\<close>

theorem submit_fresh_email_not_persisted:
  "joi_submit demo_deps (ada_body\<lparr>submit_profile := demo_profile\<lparr>experience := ''5 years''\<rparr>\<rparr>)
     = None \<and>
   User_findOne ''Ada@X.com'' (users demo_state) = None \<and>
   InstructorApplication_findOne ''Ada@X.com'' (applications demo_state) = None \<and>
   submitApplication demo_deps demo_io
       (ada_body\<lparr>submit_profile := demo_profile\<lparr>experience := ''5 years''\<rparr>\<rparr>) demo_state
     = (Inl (ValidationError {''profile.experience''}), demo_state)"
  by code_simp

text \<open>
  C4, amended. On a request that passes request validation: when the normalized email is
  that of a stored user, or else of a stored application, Submit fails with status 400
  (\<open>User with this email already exists\<close>, \<open>Application with this email already exists\<close>)
  and the state is unchanged. Otherwise, when the record passes the validators of the
  application schema, Submit appends one application with a new id, the normalized email,
  the hash of the password and status \<open>pending\<close>, leaves the users alone, and answers 201
  with that id; when a validator fails, Submit fails with the validation error over the
  failing paths and the state is unchanged.
\<close>

theorem submit_conflict_or_validated_persist:
  assumes "joi_submit d body = None"
  shows "(User_findOne (submit_email body) (users st) \<noteq> None \<longrightarrow>
            submitApplication d i body st =
              (Inl (HttpError 400 ''User with this email already exists''), st)) \<and>
         (User_findOne (submit_email body) (users st) = None \<and>
          InstructorApplication_findOne (submit_email body) (applications st) \<noteq> None \<longrightarrow>
            submitApplication d i body st =
              (Inl (HttpError 400 ''Application with this email already exists''), st)) \<and>
         (User_findOne (submit_email body) (users st) = None \<and>
          InstructorApplication_findOne (submit_email body) (applications st) = None \<longrightarrow>
            (let bad = failing_paths d (trim (submit_name body))
                         (normalize_email (submit_email body)) (submit_password body)
                         (trim_profile (submit_profile body))
             in if bad = {}
                then \<exists>a. fst (submitApplication d i body st) =
                            Inr \<lparr>submit_status = 201, submit_success = True,
                                 submit_message = ''Instructor application submitted successfully'',
                                 applicationId = app_id a\<rparr> \<and>
                          applications (snd (submitApplication d i body st)) =
                            applications st @ [a] \<and>
                          users (snd (submitApplication d i body st)) = users st \<and>
                          app_id a = next_id st \<and>
                          app_email a = normalize_email (submit_email body) \<and>
                          app_password a = bcrypt_hash d (salt i) (submit_password body) \<and>
                          status a = Pending
                else submitApplication d i body st = (Inl (ValidationError bad), st)))"
proof (intro conjI impI)
  assume "User_findOne (submit_email body) (users st) \<noteq> None"
  with assms show "submitApplication d i body st =
      (Inl (HttpError 400 ''User with this email already exists''), st)"
    unfolding submitApplication_def by auto
next
  assume "User_findOne (submit_email body) (users st) = None \<and>
          InstructorApplication_findOne (submit_email body) (applications st) \<noteq> None"
  with assms show "submitApplication d i body st =
      (Inl (HttpError 400 ''Application with this email already exists''), st)"
    unfolding submitApplication_def by auto
next
  assume fresh: "User_findOne (submit_email body) (users st) = None \<and>
          InstructorApplication_findOne (submit_email body) (applications st) = None"
  then have u: "User_findOne (submit_email body) (users st) = None"
    and a: "InstructorApplication_findOne (submit_email body) (applications st) = None"
    by simp_all
  show "let bad = failing_paths d (trim (submit_name body))
                    (normalize_email (submit_email body)) (submit_password body)
                    (trim_profile (submit_profile body))
        in if bad = {}
           then \<exists>a. fst (submitApplication d i body st) =
                       Inr \<lparr>submit_status = 201, submit_success = True,
                            submit_message = ''Instructor application submitted successfully'',
                            applicationId = app_id a\<rparr> \<and>
                     applications (snd (submitApplication d i body st)) =
                       applications st @ [a] \<and>
                     users (snd (submitApplication d i body st)) = users st \<and>
                     app_id a = next_id st \<and>
                     app_email a = normalize_email (submit_email body) \<and>
                     app_password a = bcrypt_hash d (salt i) (submit_password body) \<and>
                     status a = Pending
           else submitApplication d i body st = (Inl (ValidationError bad), st)"
    unfolding submitApplication_fresh [OF assms u a] create_fresh [OF a] Let_def
    by simp
qed

theorem submit_conflict_or_validated_persist_witness:
  "joi_submit demo_deps ada_body = None \<and>
   User_findOne (submit_email ada_body) (users demo_state) = None \<and>
   InstructorApplication_findOne (submit_email ada_body) (applications demo_state) = None \<and>
   failing_paths demo_deps (trim (submit_name ada_body)) (normalize_email (submit_email ada_body))
     (submit_password ada_body) (trim_profile (submit_profile ada_body)) = {} \<and>
   fst (submitApplication demo_deps demo_io ada_body demo_state) =
     Inr \<lparr>submit_status = 201, submit_success = True,
          submit_message = ''Instructor application submitted successfully'',
          applicationId = 2\<rparr> \<and>
   joi_submit demo_deps (ada_body\<lparr>submit_email := ''Cy@x.com''\<rparr>) = None \<and>
   User_findOne (submit_email (ada_body\<lparr>submit_email := ''Cy@x.com''\<rparr>)) (users demo_state) \<noteq> None \<and>
   submitApplication demo_deps demo_io (ada_body\<lparr>submit_email := ''Cy@x.com''\<rparr>) demo_state =
     (Inl (HttpError 400 ''User with this email already exists''), demo_state) \<and>
   joi_submit demo_deps (ada_body\<lparr>submit_email := ''BOB@x.com''\<rparr>) = None \<and>
   User_findOne (submit_email (ada_body\<lparr>submit_email := ''BOB@x.com''\<rparr>)) (users demo_state) = None \<and>
   InstructorApplication_findOne (submit_email (ada_body\<lparr>submit_email := ''BOB@x.com''\<rparr>))
     (applications demo_state) \<noteq> None \<and>
   submitApplication demo_deps demo_io (ada_body\<lparr>submit_email := ''BOB@x.com''\<rparr>) demo_state =
     (Inl (HttpError 400 ''Application with this email already exists''), demo_state) \<and>
   joi_submit demo_deps
     (ada_body\<lparr>submit_name := [char_of (160::nat)],
        submit_profile := demo_profile\<lparr>experience := ''5 years''\<rparr>\<rparr>) = None \<and>
   trim [char_of (160::nat)] = [] \<and>
   submitApplication demo_deps demo_io
     (ada_body\<lparr>submit_name := [char_of (160::nat)],
        submit_profile := demo_profile\<lparr>experience := ''5 years''\<rparr>\<rparr>) demo_state =
     (Inl (ValidationError {''name'', ''profile.experience''}), demo_state)"
proof -
  let ?cy = "ada_body\<lparr>submit_email := ''Cy@x.com''\<rparr>"
  let ?bob = "ada_body\<lparr>submit_email := ''BOB@x.com''\<rparr>"
  have j: "joi_submit demo_deps ada_body = None" by code_simp
  have u: "User_findOne (submit_email ada_body) (users demo_state) = None" by code_simp
  have a: "InstructorApplication_findOne (submit_email ada_body) (applications demo_state) = None"
    by code_simp
  have v: "failing_paths demo_deps (trim (submit_name ada_body))
      (normalize_email (submit_email ada_body)) (submit_password ada_body)
      (trim_profile (submit_profile ada_body)) = {}"
    by code_simp
  have n: "next_id demo_state = 2" by (simp add: demo_state_def)
  from submit_conflict_or_validated_persist [OF j, of demo_state demo_io,
      THEN conjunct2, THEN conjunct2, rule_format, OF conjI [OF u a], unfolded Let_def v]
  have "\<exists>x. fst (submitApplication demo_deps demo_io ada_body demo_state) =
            Inr \<lparr>submit_status = 201, submit_success = True,
                 submit_message = ''Instructor application submitted successfully'',
                 applicationId = app_id x\<rparr> \<and>
          applications (snd (submitApplication demo_deps demo_io ada_body demo_state)) =
            applications demo_state @ [x] \<and>
          users (snd (submitApplication demo_deps demo_io ada_body demo_state)) =
            users demo_state \<and>
          app_id x = next_id demo_state \<and>
          app_email x = normalize_email (submit_email ada_body) \<and>
          app_password x = bcrypt_hash demo_deps (salt demo_io) (submit_password ada_body) \<and>
          status x = Pending"
    by (simp only: refl if_True)
  then obtain x where x: "fst (submitApplication demo_deps demo_io ada_body demo_state) =
            Inr \<lparr>submit_status = 201, submit_success = True,
                 submit_message = ''Instructor application submitted successfully'',
                 applicationId = app_id x\<rparr> \<and>
          applications (snd (submitApplication demo_deps demo_io ada_body demo_state)) =
            applications demo_state @ [x] \<and>
          users (snd (submitApplication demo_deps demo_io ada_body demo_state)) =
            users demo_state \<and>
          app_id x = next_id demo_state \<and>
          app_email x = normalize_email (submit_email ada_body) \<and>
          app_password x = bcrypt_hash demo_deps (salt demo_io) (submit_password ada_body) \<and>
          status x = Pending" ..
  from x have "fst (submitApplication demo_deps demo_io ada_body demo_state) =
      Inr \<lparr>submit_status = 201, submit_success = True,
           submit_message = ''Instructor application submitted successfully'',
           applicationId = app_id x\<rparr>"
    by (elim conjE)
  moreover from x have "app_id x = next_id demo_state"
    by (elim conjE)
  ultimately have r1: "fst (submitApplication demo_deps demo_io ada_body demo_state) =
      Inr \<lparr>submit_status = 201, submit_success = True,
           submit_message = ''Instructor application submitted successfully'',
           applicationId = 2\<rparr>"
    using n by simp
  have j2: "joi_submit demo_deps ?cy = None" by code_simp
  have u2: "User_findOne (submit_email ?cy) (users demo_state) \<noteq> None" by code_simp
  note r2 = submit_conflict_or_validated_persist [OF j2, of demo_state demo_io,
      THEN conjunct1, rule_format, OF u2]
  have j3: "joi_submit demo_deps ?bob = None" by code_simp
  have u3: "User_findOne (submit_email ?bob) (users demo_state) = None" by code_simp
  have a3: "InstructorApplication_findOne (submit_email ?bob) (applications demo_state) \<noteq> None"
    by code_simp
  note r3 = submit_conflict_or_validated_persist [OF j3, of demo_state demo_io,
      THEN conjunct2, THEN conjunct1, rule_format, OF conjI [OF u3 a3]]
  let ?nb = "ada_body\<lparr>submit_name := [char_of (160::nat)],
               submit_profile := demo_profile\<lparr>experience := ''5 years''\<rparr>\<rparr>"
  have j4: "joi_submit demo_deps ?nb = None" by code_simp
  have t4: "trim [char_of (160::nat)] = []" by code_simp
  have u4: "User_findOne (submit_email ?nb) (users demo_state) = None" by code_simp
  have a4: "InstructorApplication_findOne (submit_email ?nb) (applications demo_state) = None"
    by code_simp
  have v4: "failing_paths demo_deps (trim (submit_name ?nb)) (normalize_email (submit_email ?nb))
      (submit_password ?nb) (trim_profile (submit_profile ?nb)) = {''name'', ''profile.experience''}"
    by code_simp
  from submit_conflict_or_validated_persist [OF j4, of demo_state demo_io,
      THEN conjunct2, THEN conjunct2, rule_format, OF conjI [OF u4 a4], unfolded Let_def v4]
  have r4: "submitApplication demo_deps demo_io ?nb demo_state =
      (Inl (ValidationError {''name'', ''profile.experience''}), demo_state)"
    by simp
  show ?thesis
    by (intro conjI) (fact j u a v r1 j2 u2 r2 j3 u3 a3 r3 j4 t4 r4)+
qed

section \<open>Notification failures\<close>

lemma io_mail_ok_fields [simp]:
  "now (i\<lparr>mail_ok := b\<rparr>) = now i" "salt (i\<lparr>mail_ok := b\<rparr>) = salt i"
  "random_password (i\<lparr>mail_ok := b\<rparr>) = random_password i"
  by simp_all

lemma send_or_log_failed:
  "send_or_log (i\<lparr>mail_ok := False\<rparr>) m l st = st\<lparr>console := console st @ [l]\<rparr>"
  unfolding send_or_log_def by simp

lemma create_ignores_mail_ok:
  "InstructorApplication_create d (i\<lparr>mail_ok := b\<rparr>) nm em pw p st =
   InstructorApplication_create d i nm em pw p st"
  unfolding InstructorApplication_create_def Let_def by simp

lemma submit_swallows_mail_failure:
  "fst (submitApplication d (i\<lparr>mail_ok := False\<rparr>) body st) =
     fst (submitApplication d (i\<lparr>mail_ok := True\<rparr>) body st) \<and>
   users (snd (submitApplication d (i\<lparr>mail_ok := False\<rparr>) body st)) =
     users (snd (submitApplication d (i\<lparr>mail_ok := True\<rparr>) body st)) \<and>
   applications (snd (submitApplication d (i\<lparr>mail_ok := False\<rparr>) body st)) =
     applications (snd (submitApplication d (i\<lparr>mail_ok := True\<rparr>) body st)) \<and>
   (\<forall>r. fst (submitApplication d (i\<lparr>mail_ok := False\<rparr>) body st) = Inr r \<longrightarrow>
      console (snd (submitApplication d (i\<lparr>mail_ok := False\<rparr>) body st)) =
        console st @ [''Failed to send admin notification email:''] \<and>
      outbox (snd (submitApplication d (i\<lparr>mail_ok := False\<rparr>) body st)) = outbox st)"
  unfolding submitApplication_def create_ignores_mail_ok send_or_log_failed
  by (auto simp: InstructorApplication_create_def Let_def
           split: option.splits sum.splits prod.splits if_splits)

lemma approve_swallows_mail_failure:
  "fst (approveApplication d (i\<lparr>mail_ok := False\<rparr>) aid admin st) =
     fst (approveApplication d (i\<lparr>mail_ok := True\<rparr>) aid admin st) \<and>
   users (snd (approveApplication d (i\<lparr>mail_ok := False\<rparr>) aid admin st)) =
     users (snd (approveApplication d (i\<lparr>mail_ok := True\<rparr>) aid admin st)) \<and>
   applications (snd (approveApplication d (i\<lparr>mail_ok := False\<rparr>) aid admin st)) =
     applications (snd (approveApplication d (i\<lparr>mail_ok := True\<rparr>) aid admin st)) \<and>
   (\<forall>r. fst (approveApplication d (i\<lparr>mail_ok := False\<rparr>) aid admin st) = Inr r \<longrightarrow>
      console (snd (approveApplication d (i\<lparr>mail_ok := False\<rparr>) aid admin st)) =
        console st @ [''Failed to send approval email:''] \<and>
      outbox (snd (approveApplication d (i\<lparr>mail_ok := False\<rparr>) aid admin st)) = outbox st)"
proof (cases "load_pending aid st")
  case (Inl e)
  then show ?thesis unfolding approveApplication_def by simp
next
  case (Inr a)
  show ?thesis
  proof (cases "approve_create_user a st")
    case (Inl e)
    with Inr show ?thesis unfolding approveApplication_def by simp
  next
    case right: (Inr p)
    obtain u st1 where p: "p = (u, st1)" by (cases p)
    with right have c: "approve_create_user a st = Inr (u, st1)" by simp
    then have "outbox st1 = outbox st" and "console st1 = console st"
      unfolding approve_create_user_def User_create_def
      by (auto simp: Let_def split: if_splits)
    then show ?thesis
      unfolding approveApplication_Inr [OF Inr c] approve_finish_def send_or_log_failed
      by simp
  qed
qed

lemma reject_swallows_mail_failure:
  "fst (rejectApplication d (i\<lparr>mail_ok := False\<rparr>) aid admin reason st) =
     fst (rejectApplication d (i\<lparr>mail_ok := True\<rparr>) aid admin reason st) \<and>
   users (snd (rejectApplication d (i\<lparr>mail_ok := False\<rparr>) aid admin reason st)) =
     users (snd (rejectApplication d (i\<lparr>mail_ok := True\<rparr>) aid admin reason st)) \<and>
   applications (snd (rejectApplication d (i\<lparr>mail_ok := False\<rparr>) aid admin reason st)) =
     applications (snd (rejectApplication d (i\<lparr>mail_ok := True\<rparr>) aid admin reason st)) \<and>
   (\<forall>r. fst (rejectApplication d (i\<lparr>mail_ok := False\<rparr>) aid admin reason st) = Inr r \<longrightarrow>
      console (snd (rejectApplication d (i\<lparr>mail_ok := False\<rparr>) aid admin reason st)) =
        console st @ [''Failed to send rejection email:''] \<and>
      outbox (snd (rejectApplication d (i\<lparr>mail_ok := False\<rparr>) aid admin reason st)) = outbox st)"
proof (cases "load_pending aid st")
  case (Inl e)
  then show ?thesis unfolding rejectApplication_def by simp
next
  case (Inr a)
  show ?thesis
    unfolding rejectApplication_Inr [OF Inr] reject_finish_def send_or_log_failed
    by simp
qed

text \<open>
  C6. For Submit, Approve and Reject alike: when the mail cannot be sent the handler
  returns exactly what it returns when the mail goes out, and leaves the same users and
  the same applications in the store, so a committed transition stays committed. When the
  call succeeds without its mail, the failure is on the console
  (\<open>Failed to send ...\<close>) and nothing was added to the outbox.
\<close>

theorem notification_failure_swallowed:
  "(fst (submitApplication d (i\<lparr>mail_ok := False\<rparr>) body st) =
      fst (submitApplication d (i\<lparr>mail_ok := True\<rparr>) body st) \<and>
    users (snd (submitApplication d (i\<lparr>mail_ok := False\<rparr>) body st)) =
      users (snd (submitApplication d (i\<lparr>mail_ok := True\<rparr>) body st)) \<and>
    applications (snd (submitApplication d (i\<lparr>mail_ok := False\<rparr>) body st)) =
      applications (snd (submitApplication d (i\<lparr>mail_ok := True\<rparr>) body st)) \<and>
    (\<forall>r. fst (submitApplication d (i\<lparr>mail_ok := False\<rparr>) body st) = Inr r \<longrightarrow>
       console (snd (submitApplication d (i\<lparr>mail_ok := False\<rparr>) body st)) =
         console st @ [''Failed to send admin notification email:''] \<and>
       outbox (snd (submitApplication d (i\<lparr>mail_ok := False\<rparr>) body st)) = outbox st)) \<and>
   (fst (approveApplication d (i\<lparr>mail_ok := False\<rparr>) aid admin st) =
      fst (approveApplication d (i\<lparr>mail_ok := True\<rparr>) aid admin st) \<and>
    users (snd (approveApplication d (i\<lparr>mail_ok := False\<rparr>) aid admin st)) =
      users (snd (approveApplication d (i\<lparr>mail_ok := True\<rparr>) aid admin st)) \<and>
    applications (snd (approveApplication d (i\<lparr>mail_ok := False\<rparr>) aid admin st)) =
      applications (snd (approveApplication d (i\<lparr>mail_ok := True\<rparr>) aid admin st)) \<and>
    (\<forall>r. fst (approveApplication d (i\<lparr>mail_ok := False\<rparr>) aid admin st) = Inr r \<longrightarrow>
       console (snd (approveApplication d (i\<lparr>mail_ok := False\<rparr>) aid admin st)) =
         console st @ [''Failed to send approval email:''] \<and>
       outbox (snd (approveApplication d (i\<lparr>mail_ok := False\<rparr>) aid admin st)) = outbox st)) \<and>
   (fst (rejectApplication d (i\<lparr>mail_ok := False\<rparr>) aid admin reason st) =
      fst (rejectApplication d (i\<lparr>mail_ok := True\<rparr>) aid admin reason st) \<and>
    users (snd (rejectApplication d (i\<lparr>mail_ok := False\<rparr>) aid admin reason st)) =
      users (snd (rejectApplication d (i\<lparr>mail_ok := True\<rparr>) aid admin reason st)) \<and>
    applications (snd (rejectApplication d (i\<lparr>mail_ok := False\<rparr>) aid admin reason st)) =
      applications (snd (rejectApplication d (i\<lparr>mail_ok := True\<rparr>) aid admin reason st)) \<and>
    (\<forall>r. fst (rejectApplication d (i\<lparr>mail_ok := False\<rparr>) aid admin reason st) = Inr r \<longrightarrow>
       console (snd (rejectApplication d (i\<lparr>mail_ok := False\<rparr>) aid admin reason st)) =
         console st @ [''Failed to send rejection email:''] \<and>
       outbox (snd (rejectApplication d (i\<lparr>mail_ok := False\<rparr>) aid admin reason st)) = outbox st))"
  by (intro conjI submit_swallows_mail_failure approve_swallows_mail_failure
        reject_swallows_mail_failure)

theorem notification_failure_swallowed_witness:
  "fst (submitApplication demo_deps (demo_io\<lparr>mail_ok := False\<rparr>) ada_body demo_state) =
     Inr \<lparr>submit_status = 201, submit_success = True,
          submit_message = ''Instructor application submitted successfully'',
          applicationId = 2\<rparr> \<and>
   console (snd (submitApplication demo_deps (demo_io\<lparr>mail_ok := False\<rparr>) ada_body demo_state)) =
     console demo_state @ [''Failed to send admin notification email:''] \<and>
   fst (approveApplication demo_deps (demo_io\<lparr>mail_ok := False\<rparr>) 1 7 demo_state) =
     Inr \<lparr>approve_message = ''Application approved successfully'', approved_id = 2,
          approved_name = ''Bob'', approved_email = ''bob@x.com'',
          approved_role = ''instructor''\<rparr> \<and>
   console (snd (approveApplication demo_deps (demo_io\<lparr>mail_ok := False\<rparr>) 1 7 demo_state)) =
     console demo_state @ [''Failed to send approval email:''] \<and>
   fst (rejectApplication demo_deps (demo_io\<lparr>mail_ok := False\<rparr>) 1 7 None demo_state) =
     Inr ''Application rejected successfully'' \<and>
   console (snd (rejectApplication demo_deps (demo_io\<lparr>mail_ok := False\<rparr>) 1 7 None demo_state)) =
     console demo_state @ [''Failed to send rejection email:'']"
proof -
  let ?i = "demo_io\<lparr>mail_ok := False\<rparr>"
  note all = notification_failure_swallowed [of demo_deps demo_io ada_body demo_state 1 7 None]
  have s: "fst (submitApplication demo_deps ?i ada_body demo_state) =
     Inr \<lparr>submit_status = 201, submit_success = True,
          submit_message = ''Instructor application submitted successfully'',
          applicationId = 2\<rparr>"
    by code_simp
  from all [THEN conjunct1, THEN conjunct2, THEN conjunct2, THEN conjunct2, rule_format, OF s]
  have s': "console (snd (submitApplication demo_deps ?i ada_body demo_state)) =
     console demo_state @ [''Failed to send admin notification email:'']"
    by (elim conjE)
  have a: "fst (approveApplication demo_deps ?i 1 7 demo_state) =
     Inr \<lparr>approve_message = ''Application approved successfully'', approved_id = 2,
          approved_name = ''Bob'', approved_email = ''bob@x.com'',
          approved_role = ''instructor''\<rparr>"
    by code_simp
  from all [THEN conjunct2, THEN conjunct1, THEN conjunct2, THEN conjunct2, THEN conjunct2,
      rule_format, OF a]
  have a': "console (snd (approveApplication demo_deps ?i 1 7 demo_state)) =
     console demo_state @ [''Failed to send approval email:'']"
    by (elim conjE)
  have r: "fst (rejectApplication demo_deps ?i 1 7 None demo_state) =
     Inr ''Application rejected successfully''"
    by code_simp
  from all [THEN conjunct2, THEN conjunct2, THEN conjunct2, THEN conjunct2, THEN conjunct2,
      rule_format, OF r]
  have r': "console (snd (rejectApplication demo_deps ?i 1 7 None demo_state)) =
     console demo_state @ [''Failed to send rejection email:'']"
    by (elim conjE)
  show ?thesis
    by (intro conjI) (fact s s' a a' r r')+
qed

section \<open>Projections\<close>

lemma select_minus_no_key: "k \<notin> fst ` set (select_minus k fs)"
  unfolding select_minus_def by auto

lemma select_minus_password:
  "select_minus ''password'' (application_fields a) =
     [(''_id'', JNum (int (app_id a))), (''name'', JStr (app_name a)),
      (''email'', JStr (app_email a)),
      (''profile'', JObj (profile_fields (app_profile a))),
      (''status'', JStr (status_name (status a)))] @
     opt_field ''approvedBy'' (\<lambda>i. JNum (int i)) (approvedBy a) @
     opt_field ''approvedAt'' JNum (approvedAt a) @
     opt_field ''rejectedBy'' (\<lambda>i. JNum (int i)) (rejectedBy a) @
     opt_field ''rejectedAt'' JNum (rejectedAt a) @
     opt_field ''rejectionReason'' JStr (rejectionReason a) @
     [(''createdAt'', JNum (createdAt a)), (''updatedAt'', JNum (updatedAt a))]"
  unfolding select_minus_def application_fields_def opt_field_def
  by (simp split: option.splits)

lemma select_minus_password_update:
  "select_minus ''password'' (application_fields (a\<lparr>app_password := x\<rparr>)) =
   select_minus ''password'' (application_fields a)"
  unfolding select_minus_password by simp

lemma insort_key_map:
  "insort_key k (g x) (map g ys) = map g (insort_key (\<lambda>y. k (g y)) x ys)"
  by (induction ys) simp_all

lemma sort_key_map: "sort_key k (map g xs) = map g (sort_key (\<lambda>y. k (g y)) xs)"
  by (induction xs) (simp_all add: insort_key_map)

lemma getApplications_ignores_passwords:
  "getApplications q (st\<lparr>applications := map (\<lambda>a. a\<lparr>app_password := f a\<rparr>) (applications st)\<rparr>)
     = getApplications q st"
proof -
  let ?g = "\<lambda>a. a\<lparr>app_password := f a\<rparr>"
  have "matches_filter (q_status q) (?g a) = matches_filter (q_status q) a" for a
    unfolding matches_filter_def by (simp split: option.splits)
  then have flt: "filter (matches_filter (q_status q)) (map ?g (applications st)) =
      map ?g (filter (matches_filter (q_status q)) (applications st))"
    unfolding filter_map by (simp add: comp_def)
  have srt: "sort_key (\<lambda>a. - createdAt a) (map ?g xs) = map ?g (sort_key (\<lambda>a. - createdAt a) xs)"
    for xs
    unfolding sort_key_map by simp
  show ?thesis
    unfolding getApplications_def Let_def
    by (simp add: flt srt drop_map take_map select_minus_password_update del: sort_key_simps)
qed

lemma getApplicationById_ignores_passwords:
  "getApplicationById aid
     (st\<lparr>applications := map (\<lambda>a. a\<lparr>app_password := f a\<rparr>) (applications st)\<rparr>)
     = getApplicationById aid st"
proof -
  have "InstructorApplication_findById aid (map (\<lambda>a. a\<lparr>app_password := f a\<rparr>) (applications st)) =
      map_option (\<lambda>a. a\<lparr>app_password := f a\<rparr>)
        (InstructorApplication_findById aid (applications st))"
    by (rule findById_map) simp
  then show ?thesis
    unfolding getApplicationById_def
    by (simp add: select_minus_password_update split: option.splits)
qed

text \<open>
  C8. Every document that \<open>getApplications\<close> lists and the document that
  \<open>getApplicationById\<close> returns has no \<open>password\<close> field, and neither answer depends
  on the stored password hashes: with any other hashes in the store both handlers answer
  the same.
\<close>

theorem listed_applications_exclude_password:
  "(\<forall>r. getApplications q st = Inr r \<longrightarrow>
      (\<forall>doc \<in> set (res_applications r). ''password'' \<notin> fst ` set doc)) \<and>
   (\<forall>doc. getApplicationById aid st = Inr doc \<longrightarrow> ''password'' \<notin> fst ` set doc) \<and>
   getApplications q (st\<lparr>applications := map (\<lambda>a. a\<lparr>app_password := f a\<rparr>) (applications st)\<rparr>)
     = getApplications q st \<and>
   getApplicationById aid
     (st\<lparr>applications := map (\<lambda>a. a\<lparr>app_password := f a\<rparr>) (applications st)\<rparr>)
     = getApplicationById aid st"
proof (intro conjI allI impI ballI)
  fix r doc
  assume "getApplications q st = Inr r" and "doc \<in> set (res_applications r)"
  then obtain a where "doc = select_minus ''password'' (application_fields a)"
    unfolding getApplications_def Let_def by (auto split: if_splits)
  then show "''password'' \<notin> fst ` set doc"
    by (simp only: select_minus_no_key not_False_eq_True)
next
  fix doc
  assume "getApplicationById aid st = Inr doc"
  then obtain a where "doc = select_minus ''password'' (application_fields a)"
    unfolding getApplicationById_def by (auto split: option.splits)
  then show "''password'' \<notin> fst ` set doc"
    by (simp only: select_minus_no_key not_False_eq_True)
next
  show "getApplications q
      (st\<lparr>applications := map (\<lambda>a. a\<lparr>app_password := f a\<rparr>) (applications st)\<rparr>)
      = getApplications q st"
    by (rule getApplications_ignores_passwords)
  show "getApplicationById aid
      (st\<lparr>applications := map (\<lambda>a. a\<lparr>app_password := f a\<rparr>) (applications st)\<rparr>)
      = getApplicationById aid st"
    by (rule getApplicationById_ignores_passwords)
qed

theorem listed_applications_exclude_password_witness:
  "getApplications \<lparr>q_page = None, q_limit = Some 5, q_status = Some ''pending''\<rparr> demo_state =
     Inr \<lparr>res_applications = [select_minus ''password'' (application_fields bob_application)],
          res_page = 1, res_pages = 1, res_total = 1, hasNextPage = False,
          hasPrevPage = False\<rparr> \<and>
   getApplicationById 1 demo_state =
     Inr (select_minus ''password'' (application_fields bob_application)) \<and>
   (''password'', JStr (app_password bob_application)) \<in> set (application_fields bob_application) \<and>
   ''password'' \<notin> fst ` set (select_minus ''password'' (application_fields bob_application))"
proof -
  let ?q = "\<lparr>q_page = None, q_limit = Some 5, q_status = Some ''pending''\<rparr>"
  let ?doc = "select_minus ''password'' (application_fields bob_application)"
  let ?r = "\<lparr>res_applications = [?doc], res_page = 1, res_pages = 1, res_total = 1,
            hasNextPage = False, hasPrevPage = False\<rparr>"
  have l: "getApplications ?q demo_state = Inr ?r" by code_simp
  have g: "getApplicationById 1 demo_state = Inr ?doc" by code_simp
  have p: "(''password'', JStr (app_password bob_application)) \<in> set (application_fields bob_application)"
    unfolding application_fields_def by simp
  from listed_applications_exclude_password [of ?q demo_state 1, THEN conjunct1, rule_format, OF l]
  have "''password'' \<notin> fst ` set ?doc" by simp
  with l g p show ?thesis by (intro conjI)
qed

section \<open>Check, then save\<close>

text \<open>
  A handler gives way at each \<^verbatim>\<open>await\<close>, so between the load of one call and its save
  the steps of another call can run. The steps are \<open>load_pending\<close>,
  \<open>approve_create_user\<close>, \<open>approve_save\<close> or \<open>reject_save\<close>, and the finish with the
  mail.
\<close>

text \<open>
  C9, as the claim states it, fails. A Reject call loads Bob's application while it is
  pending. A whole Approve call then runs and stores status \<open>approved\<close>. The save of
  the Reject call now finds \<open>approved\<close> stored, not \<open>pending\<close>, and still succeeds:
  the stored application ends as \<open>rejected\<close> with the approver's audit field beside the
  rejecter's, the approved user stays in the store, and the Reject call answers
  \<open>Application rejected successfully\<close> instead of failing.
\<close>

theorem reject_save_overwrites_approved:
  "load_pending 1 demo_state = Inr bob_application \<and>
   map status (applications (snd (approveApplication demo_deps demo_io 1 7 demo_state)))
     = [Approved] \<and>
   map_sum id (\<lambda>s. map (\<lambda>a. (status a, approvedBy a, rejectedBy a)) (applications s))
     (reject_save demo_io 8 None bob_application
        (snd (approveApplication demo_deps demo_io 1 7 demo_state)))
     = Inr [(Rejected, Some 7, Some 8)] \<and>
   map_sum id (\<lambda>s. map user_email (users s))
     (reject_save demo_io 8 None bob_application
        (snd (approveApplication demo_deps demo_io 1 7 demo_state)))
     = Inr [''cy@x.com'', ''bob@x.com''] \<and>
   fst (reject_finish demo_deps demo_io None bob_application
          (snd (approveApplication demo_deps demo_io 1 7 demo_state)))
     = Inr ''Application rejected successfully''"
  by code_simp

lemma findById_Some_mem:
  "InstructorApplication_findById j as = Some b \<Longrightarrow> b \<in> set as \<and> app_id b = j"
  unfolding InstructorApplication_findById_def by (rule find_Some_in_set)

lemma save_status:
  assumes "InstructorApplication_findById j (applications st) = Some b"
    and "\<And>a. app_id (f a) = app_id a"
  shows "map_sum id (\<lambda>s. map_option status (InstructorApplication_findById j (applications s)))
           (InstructorApplication_save j f st) = Inr (Some (status (f b)))"
proof -
  from findById_Some_mem [OF assms(1)] have mem: "b \<in> set (applications st)" and j: "app_id b = j"
    by simp_all
  have "(\<lambda>a. app_id ((if app_id a = j then f a else a))) = app_id"
    by (auto simp: assms(2))
  then have "InstructorApplication_findById j
               (map (\<lambda>a. if app_id a = j then f a else a) (applications st)) =
             map_option (\<lambda>a. if app_id a = j then f a else a)
               (InstructorApplication_findById j (applications st))"
    by (intro findById_map) (simp add: assms(2))
  with assms(1) j save_Inr [OF mem, of f] show ?thesis by simp
qed

lemma save_obtain:
  assumes "InstructorApplication_findById j (applications st) = Some b"
    and "\<And>a. app_id (f a) = app_id a"
  obtains st1 where "InstructorApplication_save j f st = Inr st1"
    and "map_option status (InstructorApplication_findById j (applications st1)) =
           Some (status (f b))"
proof (cases "InstructorApplication_save j f st")
  case (Inl e)
  with save_status [OF assms] show ?thesis by simp
next
  case (Inr st1)
  with save_status [OF assms] that show ?thesis by simp
qed

lemma handlers_load_then_rest:
  "approveApplication d i aid admin st =
     (case load_pending aid st of
        Inl e \<Rightarrow> (Inl e, st) | Inr a \<Rightarrow> approve_after_load d i admin a st)"
  "rejectApplication d i aid admin reason st =
     (case load_pending aid st of
        Inl e \<Rightarrow> (Inl e, st) | Inr a \<Rightarrow> reject_after_load d i admin reason a st)"
  unfolding approveApplication_def rejectApplication_def approve_after_load_def
    reject_after_load_def
  by (simp_all split: sum.splits)

lemma reject_after_load_stored:
  assumes "InstructorApplication_findById (app_id a) (applications st) = Some b"
  shows "fst (reject_after_load d i admin reason a st) = Inr ''Application rejected successfully''"
    and "map_option status
           (InstructorApplication_findById (app_id a)
              (applications (snd (reject_after_load d i admin reason a st)))) = Some Rejected"
proof -
  let ?f = "\<lambda>a. a\<lparr>status := Rejected, rejectedBy := Some admin, rejectedAt := Some (now i),
                   rejectionReason := map_option trim reason, updatedAt := now i\<rparr>"
  obtain st1 where s: "InstructorApplication_save (app_id a) ?f st = Inr st1"
    and t: "map_option status (InstructorApplication_findById (app_id a) (applications st1)) =
              Some (status (?f b))"
    by (rule save_obtain [OF assms, of ?f]) simp
  from s have r: "reject_after_load d i admin reason a st = reject_finish d i reason a st1"
    unfolding reject_after_load_def reject_save_def by simp
  show "fst (reject_after_load d i admin reason a st) = Inr ''Application rejected successfully''"
    unfolding r reject_finish_def by simp
  from t show "map_option status
      (InstructorApplication_findById (app_id a)
         (applications (snd (reject_after_load d i admin reason a st)))) = Some Rejected"
    unfolding r reject_finish_def by simp
qed

lemma approve_after_load_stored:
  assumes "InstructorApplication_findById (app_id a) (applications st) = Some b"
    and "approve_create_user a st = Inr (u, st1)"
  shows "fst (approve_after_load d i admin a st) =
           Inr \<lparr>approve_message = ''Application approved successfully'',
                approved_id = user_id u, approved_name = user_name u,
                approved_email = user_email u, approved_role = role u\<rparr>"
    and "map_option status
           (InstructorApplication_findById (app_id a)
              (applications (snd (approve_after_load d i admin a st)))) = Some Approved"
proof -
  let ?f = "\<lambda>a. a\<lparr>status := Approved, approvedBy := Some admin, approvedAt := Some (now i),
                   updatedAt := now i\<rparr>"
  from assms(1) approve_create_user_applications [OF assms(2)]
  have b: "InstructorApplication_findById (app_id a) (applications st1) = Some b"
    by simp
  obtain st2 where s: "InstructorApplication_save (app_id a) ?f st1 = Inr st2"
    and t: "map_option status (InstructorApplication_findById (app_id a) (applications st2)) =
              Some (status (?f b))"
    by (rule save_obtain [OF b, of ?f]) simp
  from s assms(2) have r: "approve_after_load d i admin a st = approve_finish d i a u st2"
    unfolding approve_after_load_def approve_save_def by simp
  show "fst (approve_after_load d i admin a st) =
      Inr \<lparr>approve_message = ''Application approved successfully'',
           approved_id = user_id u, approved_name = user_name u,
           approved_email = user_email u, approved_role = role u\<rparr>"
    unfolding r approve_finish_def by simp
  from t show "map_option status
      (InstructorApplication_findById (app_id a)
         (applications (snd (approve_after_load d i admin a st)))) = Some Approved"
    unfolding r approve_finish_def by simp
qed

text \<open>
  C9, amended. Within one Approve or Reject call the status is checked once, on the
  application as the call loaded it; each handler is that load followed by the rest of
  its body on the loaded document. The rest has no compare-and-set: the save is an update
  by id with no condition on the stored status. While a document with the id of the
  loaded application is stored, in whatever status, the save succeeds and stores
  \<open>approved\<close> (or \<open>rejected\<close>); the rest of a Reject call stores \<open>rejected\<close> and
  answers with success; the rest of an Approve call, when the creation of the user
  succeeds, stores \<open>approved\<close> and answers with success. When the creation of the user
  fails, the rest of an Approve call returns that error and changes nothing. A call that
  loads the application after such a save fails with status 400,
  \<open>Application has already been processed\<close>.
\<close>

theorem save_unconditional_load_guarded:
  "approveApplication d i aid admin st =
     (case load_pending aid st of
        Inl e \<Rightarrow> (Inl e, st) | Inr a \<Rightarrow> approve_after_load d i admin a st) \<and>
   rejectApplication d i aid admin reason st =
     (case load_pending aid st of
        Inl e \<Rightarrow> (Inl e, st) | Inr a \<Rightarrow> reject_after_load d i admin reason a st) \<and>
   (\<forall>b. InstructorApplication_findById (app_id a) (applications st) = Some b \<longrightarrow>
      map_sum id (\<lambda>s. map_option status (InstructorApplication_findById (app_id a) (applications s)))
        (approve_save i admin a st) = Inr (Some Approved) \<and>
      map_sum id (\<lambda>s. map_option status (InstructorApplication_findById (app_id a) (applications s)))
        (reject_save i admin reason a st) = Inr (Some Rejected) \<and>
      fst (reject_after_load d i admin reason a st) = Inr ''Application rejected successfully'' \<and>
      map_option status
        (InstructorApplication_findById (app_id a)
           (applications (snd (reject_after_load d i admin reason a st)))) = Some Rejected \<and>
      (\<forall>u st1. approve_create_user a st = Inr (u, st1) \<longrightarrow>
         fst (approve_after_load d i admin a st) =
           Inr \<lparr>approve_message = ''Application approved successfully'',
                approved_id = user_id u, approved_name = user_name u,
                approved_email = user_email u, approved_role = role u\<rparr> \<and>
         map_option status
           (InstructorApplication_findById (app_id a)
              (applications (snd (approve_after_load d i admin a st)))) = Some Approved)) \<and>
   (\<forall>e. approve_create_user a st = Inl e \<longrightarrow>
      approve_after_load d i admin a st = (Inl e, st)) \<and>
   (\<forall>st'. approve_save i admin a st = Inr st' \<or> reject_save i admin reason a st = Inr st' \<longrightarrow>
      load_pending (app_id a) st' =
        Inl (HttpError 400 ''Application has already been processed''))"
proof (intro conjI allI impI)
  show "approveApplication d i aid admin st =
     (case load_pending aid st of
        Inl e \<Rightarrow> (Inl e, st) | Inr a \<Rightarrow> approve_after_load d i admin a st)"
    by (rule handlers_load_then_rest)
  show "rejectApplication d i aid admin reason st =
     (case load_pending aid st of
        Inl e \<Rightarrow> (Inl e, st) | Inr a \<Rightarrow> reject_after_load d i admin reason a st)"
    by (rule handlers_load_then_rest)
next
  fix b
  assume b: "InstructorApplication_findById (app_id a) (applications st) = Some b"
  from save_status [OF b, of "\<lambda>a. a\<lparr>status := Approved, approvedBy := Some admin,
      approvedAt := Some (now i), updatedAt := now i\<rparr>"]
  show "map_sum id (\<lambda>s. map_option status
            (InstructorApplication_findById (app_id a) (applications s)))
          (approve_save i admin a st) = Inr (Some Approved)"
    unfolding approve_save_def by simp
  from save_status [OF b, of "\<lambda>a. a\<lparr>status := Rejected, rejectedBy := Some admin,
      rejectedAt := Some (now i), rejectionReason := map_option trim reason,
      updatedAt := now i\<rparr>"]
  show "map_sum id (\<lambda>s. map_option status
            (InstructorApplication_findById (app_id a) (applications s)))
          (reject_save i admin reason a st) = Inr (Some Rejected)"
    unfolding reject_save_def by simp
  show "fst (reject_after_load d i admin reason a st) = Inr ''Application rejected successfully''"
    by (rule reject_after_load_stored [OF b])
  show "map_option status
      (InstructorApplication_findById (app_id a)
         (applications (snd (reject_after_load d i admin reason a st)))) = Some Rejected"
    by (rule reject_after_load_stored [OF b])
  fix u st1
  assume c: "approve_create_user a st = Inr (u, st1)"
  show "fst (approve_after_load d i admin a st) =
      Inr \<lparr>approve_message = ''Application approved successfully'',
           approved_id = user_id u, approved_name = user_name u,
           approved_email = user_email u, approved_role = role u\<rparr>"
    by (rule approve_after_load_stored [OF b c])
  show "map_option status
      (InstructorApplication_findById (app_id a)
         (applications (snd (approve_after_load d i admin a st)))) = Some Approved"
    by (rule approve_after_load_stored [OF b c])
next
  fix e
  assume "approve_create_user a st = Inl e"
  then show "approve_after_load d i admin a st = (Inl e, st)"
    unfolding approve_after_load_def by simp
next
  fix st'
  assume saved: "approve_save i admin a st = Inr st' \<or> reject_save i admin reason a st = Inr st'"
  then have "\<exists>b \<in> set (applications st). app_id b = app_id a"
    unfolding approve_save_def reject_save_def InstructorApplication_save_def
    by (auto split: if_splits)
  then obtain b where b: "InstructorApplication_findById (app_id a) (applications st) = Some b"
    unfolding InstructorApplication_findById_def
    by (cases "find (\<lambda>x. app_id x = app_id a) (applications st)")
       (auto simp: find_None_iff)
  from saved show "load_pending (app_id a) st' =
      Inl (HttpError 400 ''Application has already been processed'')"
  proof
    assume s: "approve_save i admin a st = Inr st'"
    from save_status [OF b, of "\<lambda>a. a\<lparr>status := Approved, approvedBy := Some admin,
        approvedAt := Some (now i), updatedAt := now i\<rparr>"] s
    have "map_option status (InstructorApplication_findById (app_id a) (applications st'))
        = Some Approved"
      unfolding approve_save_def by simp
    then have "processed (app_id a) st'"
      unfolding processed_def by (auto split: option.splits)
    then show ?thesis by (rule load_pending_processed)
  next
    assume s: "reject_save i admin reason a st = Inr st'"
    from save_status [OF b, of "\<lambda>a. a\<lparr>status := Rejected, rejectedBy := Some admin,
        rejectedAt := Some (now i), rejectionReason := map_option trim reason,
        updatedAt := now i\<rparr>"] s
    have "map_option status (InstructorApplication_findById (app_id a) (applications st'))
        = Some Rejected"
      unfolding reject_save_def by simp
    then have "processed (app_id a) st'"
      unfolding processed_def by (auto split: option.splits)
    then show ?thesis by (rule load_pending_processed)
  qed
qed

theorem save_unconditional_load_guarded_witness:
  "load_pending 1 demo_state = Inr bob_application \<and>
   map_option status
     (InstructorApplication_findById (app_id bob_application)
        (applications (snd (approveApplication demo_deps demo_io 1 7 demo_state))))
     = Some Approved \<and>
   fst (reject_after_load demo_deps demo_io 8 None bob_application
          (snd (approveApplication demo_deps demo_io 1 7 demo_state)))
     = Inr ''Application rejected successfully'' \<and>
   map_option status
     (InstructorApplication_findById (app_id bob_application)
        (applications
           (snd (reject_after_load demo_deps demo_io 8 None bob_application
                   (snd (approveApplication demo_deps demo_io 1 7 demo_state))))))
     = Some Rejected \<and>
   approve_create_user bob_application
     (snd (approveApplication demo_deps demo_io 1 7 demo_state))
     = Inl (DuplicateKey ''email'') \<and>
   approve_after_load demo_deps demo_io 8 bob_application
     (snd (approveApplication demo_deps demo_io 1 7 demo_state))
     = (Inl (DuplicateKey ''email''),
        snd (approveApplication demo_deps demo_io 1 7 demo_state)) \<and>
   map_option status
     (InstructorApplication_findById (app_id bob_application)
        (applications (snd (rejectApplication demo_deps demo_io 1 7 None demo_state))))
     = Some Rejected \<and>
   fst (approve_after_load demo_deps demo_io 8 bob_application
          (snd (rejectApplication demo_deps demo_io 1 7 None demo_state)))
     = Inr \<lparr>approve_message = ''Application approved successfully'', approved_id = 2,
            approved_name = ''Bob'', approved_email = ''bob@x.com'',
            approved_role = ''instructor''\<rparr> \<and>
   map_option status
     (InstructorApplication_findById (app_id bob_application)
        (applications
           (snd (approve_after_load demo_deps demo_io 8 bob_application
                   (snd (rejectApplication demo_deps demo_io 1 7 None demo_state))))))
     = Some Approved \<and>
   approve_save demo_io 7 bob_application demo_state =
     Inr (demo_state\<lparr>applications :=
            [bob_application\<lparr>status := Approved, approvedBy := Some 7,
               approvedAt := Some 1000, updatedAt := 1000\<rparr>]\<rparr>) \<and>
   load_pending (app_id bob_application)
     (demo_state\<lparr>applications :=
        [bob_application\<lparr>status := Approved, approvedBy := Some 7,
           approvedAt := Some 1000, updatedAt := 1000\<rparr>]\<rparr>)
     = Inl (HttpError 400 ''Application has already been processed'')"
proof -
  let ?A = "snd (approveApplication demo_deps demo_io 1 7 demo_state)"
  let ?R = "snd (rejectApplication demo_deps demo_io 1 7 None demo_state)"
  let ?b = "bob_application\<lparr>status := Approved, approvedBy := Some 7, approvedAt := Some 1000,
              updatedAt := 1000\<rparr>"
  let ?c = "bob_application\<lparr>status := Rejected, rejectedBy := Some 7, rejectedAt := Some 1000,
              rejectionReason := None, updatedAt := 1000\<rparr>"
  let ?u = "\<lparr>user_id = 2, user_name = ''Bob'', user_email = ''bob@x.com'',
             user_password = demo_hash ''s0'' ''secret1'', isAdmin = False,
             isInstructor = True, role = ''instructor'', isTemporaryPassword = False,
             user_profile = Some demo_profile\<rparr>"
  have l0: "load_pending 1 demo_state = Inr bob_application" by code_simp
  have b: "InstructorApplication_findById (app_id bob_application) (applications ?A) = Some ?b"
    by code_simp
  then have sA: "map_option status
      (InstructorApplication_findById (app_id bob_application) (applications ?A)) = Some Approved"
    by simp
  note onA = save_unconditional_load_guarded [of demo_deps demo_io 1 8 ?A None bob_application,
      THEN conjunct2, THEN conjunct2]
  note storedA = onA [THEN conjunct1, rule_format, OF b]
  from storedA have r1: "fst (reject_after_load demo_deps demo_io 8 None bob_application ?A)
      = Inr ''Application rejected successfully''"
    by (elim conjE)
  from storedA have r2: "map_option status
      (InstructorApplication_findById (app_id bob_application)
         (applications (snd (reject_after_load demo_deps demo_io 8 None bob_application ?A))))
      = Some Rejected"
    by (elim conjE)
  have dup: "approve_create_user bob_application ?A = Inl (DuplicateKey ''email'')"
    by code_simp
  note a1 = onA [THEN conjunct2, THEN conjunct1, rule_format, OF dup]
  have c: "InstructorApplication_findById (app_id bob_application) (applications ?R) = Some ?c"
    by code_simp
  then have sR: "map_option status
      (InstructorApplication_findById (app_id bob_application) (applications ?R)) = Some Rejected"
    by simp
  have cr: "approve_create_user bob_application ?R =
      Inr (?u, ?R\<lparr>users := users ?R @ [?u], next_id := Suc (next_id ?R)\<rparr>)"
    by code_simp
  note storedR = save_unconditional_load_guarded [of demo_deps demo_io 1 8 ?R None bob_application,
      THEN conjunct2, THEN conjunct2, THEN conjunct1, rule_format, OF c]
  note appR = storedR [THEN conjunct2, THEN conjunct2, THEN conjunct2, THEN conjunct2,
      rule_format, OF cr]
  from appR have a2: "fst (approve_after_load demo_deps demo_io 8 bob_application ?R)
      = Inr \<lparr>approve_message = ''Application approved successfully'', approved_id = 2,
             approved_name = ''Bob'', approved_email = ''bob@x.com'',
             approved_role = ''instructor''\<rparr>"
    by simp
  from appR have a3: "map_option status
      (InstructorApplication_findById (app_id bob_application)
         (applications (snd (approve_after_load demo_deps demo_io 8 bob_application ?R))))
      = Some Approved"
    by (elim conjE)
  let ?st2 = "demo_state\<lparr>applications := [?b]\<rparr>"
  have a0: "approve_save demo_io 7 bob_application demo_state = Inr ?st2"
    by code_simp
  then have a: "approve_save demo_io 7 bob_application demo_state = Inr ?st2 \<or>
      reject_save demo_io 7 None bob_application demo_state = Inr ?st2"
    by (rule disjI1)
  note l = save_unconditional_load_guarded [of demo_deps demo_io 1 7 demo_state None bob_application,
      THEN conjunct2, THEN conjunct2, THEN conjunct2, THEN conjunct2, rule_format, OF a]
  show ?thesis
    by (intro conjI) (fact l0 sA r1 r2 dup a1 sR a2 a3 a0 l)+
qed

end
